theory Spec2Isabelle
  imports Main
begin

section \<open>Appointment scheduling: data model (app/models.py)\<close>

text \<open>
  The development embeds the appointment core of the hospital management application:
  the conflict checker and lifecycle checker of \<^verbatim>\<open>MedicalAppointment\<close> (app/models.py) and
  the request handlers that create, reschedule, cancel, complete, re-status and delete
  appointments (app/routes/patient.py, doctor.py, admin.py).

  Conventions of the embedding.
  \<^item> The database is a record of tables; a table is the list of its rows in insertion
    order. A handler takes the database and returns \<open>error + database\<close>: \<open>Inr\<close> is the
    committed database, \<open>Inl\<close> a request that committed nothing (an error was flashed,
    the commit was rolled back, or an exception left the view), so that the stored
    database is the one the handler was given.
  \<^item> The handlers read their inputs from the HTTP form
    (\<^verbatim>\<open>request.form.get(..., '').strip()\<close>); the parameters of the embedded handlers
    are these values as read, i.e. the local variables \<^verbatim>\<open>doctor_id\<close>,
    \<^verbatim>\<open>appointment_date\<close>, \<^verbatim>\<open>appointment_time\<close>, \<^verbatim>\<open>notes\<close>, \<^verbatim>\<open>new_date\<close>,
    \<^verbatim>\<open>new_time\<close>, \<^verbatim>\<open>new_status_string\<close> and the dictionary \<^verbatim>\<open>treatment_data\<close>.
    The role decorators and the rendering of responses are outside the embedding;
    \<^verbatim>\<open>current_user.id\<close> is a parameter. Handlers that answer GET only by rendering a
    form are embedded in their POST branch.
  \<^item> Python library calls whose results the code stores or branches on are taken as
    parameters (\<open>pylib\<close>): \<^verbatim>\<open>int(s)\<close>, \<^verbatim>\<open>date.fromisoformat(s)\<close> and
    \<^verbatim>\<open>datetime.strptime(s, '%H:%M').time()\<close>, each returning \<open>None\<close> where Python raises
    \<^verbatim>\<open>ValueError\<close>. The types of dates and times are type parameters.
  \<^item> Timestamps (\<^verbatim>\<open>created_at\<close>, \<^verbatim>\<open>updated_at\<close>) are not part of the model.
\<close>

datatype UserRole = ADMIN | DOCTOR | PATIENT

datatype AppointmentState = BOOKED | COMPLETED | CANCELLED

text \<open>The \<^verbatim>\<open>.value\<close> of a member of \<^verbatim>\<open>AppointmentState\<close>.\<close>

fun state_value :: "AppointmentState \<Rightarrow> string" where
  "state_value BOOKED = ''Booked''"
| "state_value COMPLETED = ''Completed''"
| "state_value CANCELLED = ''Cancelled''"

text \<open>
  \<^verbatim>\<open>PhysicianProfile.availability\<close> is a nullable JSON column holding a dictionary from a
  date string to the list of slot labels of that day.
\<close>

record PhysicianProfile =
  availability :: "(string \<times> string list) list option"

record SystemUser =
  role :: UserRole
  physician_profile :: "PhysicianProfile option"

record ('d, 't) MedicalAppointment =
  appt_id :: int
  patient_id :: int
  doctor_id :: int
  date :: 'd
  time :: 't
  status :: AppointmentState
  appt_notes :: string

record TreatmentRecord =
  treatment_id :: int
  appointment_id :: int
  visit_type :: string
  tests_done :: string
  diagnosis :: string
  prescription :: string
  medicines :: string
  treatment_notes :: string

record ('d, 't) database =
  users :: "int \<Rightarrow> SystemUser option"
  appointments :: "('d, 't) MedicalAppointment list"
  treatments :: "TreatmentRecord list"

record ('d, 't) pylib =
  py_int :: "string \<Rightarrow> int option"
  fromisoformat :: "string \<Rightarrow> 'd option"
  strptime_HM :: "string \<Rightarrow> 't option"

text \<open>
  The outcomes of a request that commits nothing, each with the message the handler
  flashes: \<open>NotFound\<close> (\<^verbatim>\<open>get_or_404\<close>, an unknown doctor), \<open>AccessDenied\<close> (the ownership
  checks), \<open>ValidationError\<close> (a missing or ill-formed field), \<open>SlotUnavailable\<close> (the slot is
  not declared or is taken), \<open>InvalidState\<close> (the status forbids the operation),
  \<open>StorageFailure\<close> (the commit raised and was rolled back) and \<open>Unhandled\<close> (an exception
  that no handler catches, named by its class).
\<close>

datatype error =
    NotFound string
  | AccessDenied string
  | ValidationError string
  | SlotUnavailable string
  | InvalidState string
  | StorageFailure string
  | Unhandled string

section \<open>Queries\<close>

text \<open>\<^verbatim>\<open>Query.first()\<close>: the first row of a result, or \<^verbatim>\<open>None\<close>.\<close>

definition first :: "'a list \<Rightarrow> 'a option" where
  "first rows = (case rows of [] \<Rightarrow> None | r # _ \<Rightarrow> Some r)"

text \<open>\<^verbatim>\<open>Appointment.query.get(id)\<close>, the row with that primary key.\<close>

definition get_appointment ::
  "('d, 't) MedicalAppointment list \<Rightarrow> int \<Rightarrow> ('d, 't) MedicalAppointment option" where
  "get_appointment tbl i = first (filter (\<lambda>a. appt_id a = i) tbl)"

text \<open>
  The key a new row receives. The configured database is SQLite, where an integer primary
  key of an inserted row is one more than the largest key in the table (1 in an empty one).
\<close>

definition next_appt_id :: "('d, 't) MedicalAppointment list \<Rightarrow> int" where
  "next_appt_id tbl = 1 + foldr (\<lambda>a m. max (appt_id a) m) tbl 0"

definition next_treatment_id :: "TreatmentRecord list \<Rightarrow> int" where
  "next_treatment_id tbl = 1 + foldr (\<lambda>r m. max (treatment_id r) m) tbl 0"

text \<open>
  \<^verbatim>\<open>db.UniqueConstraint('doctor_id', 'date', 'time', name='uq_doctor_date_time_booked_slot')\<close>
  of \<^verbatim>\<open>MedicalAppointment.__table_args__\<close>: writing row \<open>a\<close> is refused when another row
  of the table has the same doctor, date and time. The constraint does not mention the
  status column.
\<close>

definition violates_uq_doctor_date_time ::
  "('d, 't) MedicalAppointment list \<Rightarrow> ('d, 't) MedicalAppointment \<Rightarrow> bool" where
  "violates_uq_doctor_date_time tbl a =
     list_ex (\<lambda>b. appt_id b \<noteq> appt_id a \<and> doctor_id b = doctor_id a
                   \<and> date b = date a \<and> time b = time a) tbl"

section \<open>Conflict checker and lifecycle checker (MedicalAppointment)\<close>

definition check_time_slot_availability ::
  "('d, 't) MedicalAppointment list \<Rightarrow> int \<Rightarrow> 'd \<Rightarrow> 't \<Rightarrow> int option \<Rightarrow> bool" where
  "check_time_slot_availability tbl physician_id appointment_date appointment_time
       exclude_appointment_id =
     (let query = filter (\<lambda>a. doctor_id a = physician_id \<and> date a = appointment_date
                              \<and> time a = appointment_time \<and> status a = BOOKED) tbl;
          query' = (case exclude_appointment_id of
                      None \<Rightarrow> query
                    | Some e \<Rightarrow> filter (\<lambda>a. appt_id a \<noteq> e) query);
          conflicting_appointment = first query'
      in conflicting_appointment = None)"

definition is_slot_available ::
  "('d, 't) MedicalAppointment list \<Rightarrow> int \<Rightarrow> 'd \<Rightarrow> 't \<Rightarrow> int option \<Rightarrow> bool" where
  "is_slot_available tbl doctor appointment_date appointment_time exclude_id =
     check_time_slot_availability tbl doctor appointment_date appointment_time exclude_id"

definition validate_status_transition ::
  "('d, 't) MedicalAppointment \<Rightarrow> AppointmentState \<Rightarrow> bool \<times> string option" where
  "validate_status_transition self target_status =
     (let current_status = status self in
      if current_status = target_status then (True, None)
      else if current_status = BOOKED then
        (if target_status \<in> set [COMPLETED, CANCELLED] then (True, None)
         else (False, Some (''Invalid transition from '' @ state_value current_status
                            @ '' to '' @ state_value target_status)))
      else if current_status \<in> set [COMPLETED, CANCELLED] then
        (if target_status = BOOKED then
           (False, Some (''Cannot change '' @ state_value current_status
                         @ '' appointment back to Booked''))
         else (True, None))
      else (True, None))"

text \<open>
  \<^verbatim>\<open>change_status\<close> mutates \<^verbatim>\<open>self.status\<close> and returns a pair; the model returns the
  appointment after the call together with that pair.
\<close>

definition change_status ::
  "('d, 't) MedicalAppointment \<Rightarrow> AppointmentState \<Rightarrow> bool
     \<Rightarrow> ('d, 't) MedicalAppointment \<times> (bool \<times> string)" where
  "change_status self new_status bypass_validation =
     (let (is_valid, error_message) = validate_status_transition self new_status in
      if \<not> bypass_validation \<and> \<not> is_valid then
        (self, (False, (case error_message of
                          None \<Rightarrow> ''Invalid status transition''
                        | Some m \<Rightarrow> if m = [] then ''Invalid status transition'' else m)))
      else
        (let previous_status = status self in
         (self\<lparr>status := new_status\<rparr>,
          (True, ''Status changed from '' @ state_value previous_status
                 @ '' to '' @ state_value new_status))))"

section \<open>Patient handlers (app/routes/patient.py)\<close>

definition normalize_date_time_inputs ::
  "('d, 't) pylib \<Rightarrow> string \<Rightarrow> string \<Rightarrow> error + ('d \<times> 't)" where
  "normalize_date_time_inputs L appointment_date appointment_time =
     (case fromisoformat L appointment_date of
        None \<Rightarrow> Inl (Unhandled ''ValueError'')
      | Some d \<Rightarrow>
          (case strptime_HM L appointment_time of
             None \<Rightarrow> Inl (Unhandled ''ValueError'')
           | Some t \<Rightarrow> Inr (d, t)))"

text \<open>
  \<^verbatim>\<open>verify_slot_availability\<close> returns \<^verbatim>\<open>(not is_available, existing)\<close>. The second query
  applies the exclusion under \<^verbatim>\<open>if exclude_appointment_id:\<close>, which is false for
  \<^verbatim>\<open>None\<close> and for 0.
\<close>

definition verify_slot_availability ::
  "('d, 't) pylib \<Rightarrow> ('d, 't) MedicalAppointment list \<Rightarrow> int \<Rightarrow> string \<Rightarrow> string
     \<Rightarrow> int option \<Rightarrow> error + (bool \<times> ('d, 't) MedicalAppointment option)" where
  "verify_slot_availability L tbl doctor appointment_date appointment_time
       exclude_appointment_id =
     (case normalize_date_time_inputs L appointment_date appointment_time of
        Inl e \<Rightarrow> Inl e
      | Inr (normalized_date, normalized_time) \<Rightarrow>
          (let is_available = is_slot_available tbl doctor normalized_date normalized_time
                                exclude_appointment_id;
               query = filter (\<lambda>a. doctor_id a = doctor \<and> date a = normalized_date
                                    \<and> time a = normalized_time \<and> status a = BOOKED) tbl;
               query' = (case exclude_appointment_id of
                           None \<Rightarrow> query
                         | Some e \<Rightarrow> if e \<noteq> 0 then filter (\<lambda>a. appt_id a \<noteq> e) query
                                     else query);
               existing = (if \<not> is_available then first query' else None)
           in Inr (\<not> is_available, existing)))"

definition validate_doctor_availability ::
  "SystemUser \<Rightarrow> string \<Rightarrow> string \<Rightarrow> bool \<times> string option" where
  "validate_doctor_availability doctor appointment_date appointment_time =
     (case physician_profile doctor of
        None \<Rightarrow> (False, Some ''Doctor is not available on this date.'')
      | Some profile \<Rightarrow>
          (case availability profile of
             None \<Rightarrow> (False, Some ''Doctor is not available on this date.'')
           | Some av \<Rightarrow>
               if av = [] then (False, Some ''Doctor is not available on this date.'')
               else
                 (case map_of av appointment_date of
                    None \<Rightarrow> (False, Some ''Doctor is not available on this date.'')
                  | Some available_slots \<Rightarrow>
                      if appointment_time \<notin> set available_slots then
                        (False, Some ''Selected time slot is not available. Please choose another time.'')
                      else (True, None))))"

text \<open>\<^verbatim>\<open>flash(error_message, 'error')\<close> of an optional message.\<close>

definition message_text :: "string option \<Rightarrow> string" where
  "message_text m = (case m of None \<Rightarrow> [] | Some s \<Rightarrow> s)"

text \<open>An optional message inside an f-string: \<^verbatim>\<open>f'{reason}'\<close>.\<close>

definition format_optional :: "string option \<Rightarrow> string" where
  "format_optional m = (case m of None \<Rightarrow> ''None'' | Some s \<Rightarrow> s)"

text \<open>
  \<^verbatim>\<open>create_appointment\<close>, POST branch (lines 336--379). The commit of the inserted row
  is inside \<^verbatim>\<open>try ... except Exception\<close>: a refused insert is rolled back and flashed.
\<close>

definition create_appointment ::
  "('d, 't) pylib \<Rightarrow> ('d, 't) database \<Rightarrow> int \<Rightarrow> string \<Rightarrow> string \<Rightarrow> string \<Rightarrow> string
     \<Rightarrow> error + ('d, 't) database" where
  "create_appointment L db current_user doctor_id_field appointment_date appointment_time
       notes_field =
     (if doctor_id_field = [] \<or> appointment_date = [] \<or> appointment_time = [] then
        Inl (ValidationError ''Please fill in all required fields.'')
      else
        (case py_int L doctor_id_field of
           None \<Rightarrow> Inl (Unhandled ''ValueError'')
         | Some did \<Rightarrow>
        (case users db did of
           None \<Rightarrow> Inl (NotFound ''Invalid doctor selected.'')
         | Some doctor \<Rightarrow>
        if role doctor \<noteq> DOCTOR then Inl (NotFound ''Invalid doctor selected.'')
        else
        (case validate_doctor_availability doctor appointment_date appointment_time of
           (False, error_message) \<Rightarrow> Inl (SlotUnavailable (message_text error_message))
         | (True, _) \<Rightarrow>
        (case verify_slot_availability L (appointments db) did appointment_date
                appointment_time None of
           Inl e \<Rightarrow> Inl e
         | Inr (True, _) \<Rightarrow>
             Inl (SlotUnavailable ''This time slot is already booked. Please choose another time.'')
         | Inr (False, _) \<Rightarrow>
        (case fromisoformat L appointment_date of
           None \<Rightarrow> Inl (Unhandled ''ValueError'')
         | Some d \<Rightarrow>
        (case strptime_HM L appointment_time of
           None \<Rightarrow> Inl (Unhandled ''ValueError'')
         | Some t \<Rightarrow>
        (let appointment = \<lparr>appt_id = next_appt_id (appointments db),
                            patient_id = current_user, doctor_id = did,
                            date = d, time = t, status = BOOKED,
                            appt_notes = notes_field\<rparr>
         in if violates_uq_doctor_date_time (appointments db) appointment then
              Inl (StorageFailure ''An error occurred while booking the appointment. Please try again.'')
            else Inr (db\<lparr>appointments := appointments db @ [appointment]\<rparr>)))))))))"

text \<open>
  \<^verbatim>\<open>create_appointment\<close>, GET branch (lines 279--334): when the query string carries a
  physician, a date and a time, the appointment is booked directly, with empty notes and
  an unguarded commit. Where the branch only renders the booking form, the database is
  returned as it is.
\<close>

definition create_appointment_direct ::
  "('d, 't) pylib \<Rightarrow> ('d, 't) database \<Rightarrow> int \<Rightarrow> string \<Rightarrow> string \<Rightarrow> string
     \<Rightarrow> error + ('d, 't) database" where
  "create_appointment_direct L db current_user doctor_id_field pre_date pre_time =
     (if doctor_id_field \<noteq> [] \<and> pre_date \<noteq> [] \<and> pre_time \<noteq> [] then
        (case py_int L doctor_id_field of
           None \<Rightarrow> Inl (Unhandled ''ValueError'')
         | Some did \<Rightarrow>
        (case users db did of
           None \<Rightarrow> Inr db
         | Some doctor \<Rightarrow>
        if role doctor \<noteq> DOCTOR then Inr db
        else
        (case validate_doctor_availability doctor pre_date pre_time of
           (False, error_message) \<Rightarrow> Inl (SlotUnavailable (message_text error_message))
         | (True, _) \<Rightarrow>
        (case verify_slot_availability L (appointments db) did pre_date pre_time None of
           Inl e \<Rightarrow> Inl e
         | Inr (True, _) \<Rightarrow>
             Inl (SlotUnavailable ''This time slot is already booked. Please choose another time.'')
         | Inr (False, _) \<Rightarrow>
        (case fromisoformat L pre_date of
           None \<Rightarrow> Inl (Unhandled ''ValueError'')
         | Some d \<Rightarrow>
        (case strptime_HM L pre_time of
           None \<Rightarrow> Inl (Unhandled ''ValueError'')
         | Some t \<Rightarrow>
        (let appointment = \<lparr>appt_id = next_appt_id (appointments db),
                            patient_id = current_user, doctor_id = did,
                            date = d, time = t, status = BOOKED, appt_notes = []\<rparr>
         in if violates_uq_doctor_date_time (appointments db) appointment then
              Inl (Unhandled ''IntegrityError'')
            else Inr (db\<lparr>appointments := appointments db @ [appointment]\<rparr>))))))))
      else Inr db)"

text \<open>
  \<^verbatim>\<open>reschedule_client_appointment\<close>, POST branch. The row is updated through its primary
  key (\<open>move_to\<close>); the commit is not guarded, so a refused update leaves the view as an
  \<^verbatim>\<open>IntegrityError\<close>.
\<close>

definition move_to ::
  "int \<Rightarrow> 'd \<Rightarrow> 't \<Rightarrow> ('d, 't) MedicalAppointment \<Rightarrow> ('d, 't) MedicalAppointment" where
  "move_to i d t a = (if appt_id a = i then a\<lparr>date := d, time := t\<rparr> else a)"

definition reschedule_client_appointment ::
  "('d, 't) pylib \<Rightarrow> ('d, 't) database \<Rightarrow> int \<Rightarrow> int \<Rightarrow> string \<Rightarrow> string
     \<Rightarrow> error + ('d, 't) database" where
  "reschedule_client_appointment L db current_user i new_date new_time =
     (case get_appointment (appointments db) i of
        None \<Rightarrow> Inl (NotFound ''404'')
      | Some appointment \<Rightarrow>
        if patient_id appointment \<noteq> current_user then
          Inl (AccessDenied ''Access denied. This appointment does not belong to you.'')
        else if status appointment \<noteq> BOOKED then
          Inl (InvalidState ''Only booked appointments can be rescheduled.'')
        else if new_date = [] \<or> new_time = [] then
          Inl (ValidationError ''Please select both date and time.'')
        else
        (case users db (doctor_id appointment) of
           None \<Rightarrow> Inl (Unhandled ''AttributeError'')
         | Some doctor \<Rightarrow>
        (case validate_doctor_availability doctor new_date new_time of
           (False, error_message) \<Rightarrow> Inl (SlotUnavailable (message_text error_message))
         | (True, _) \<Rightarrow>
        (case verify_slot_availability L (appointments db) (doctor_id appointment) new_date
                new_time (Some (appt_id appointment)) of
           Inl e \<Rightarrow> Inl e
         | Inr (True, _) \<Rightarrow>
             Inl (SlotUnavailable ''This time slot is already booked. Please choose another time.'')
         | Inr (False, _) \<Rightarrow>
        (case fromisoformat L new_date of
           None \<Rightarrow> Inl (Unhandled ''ValueError'')
         | Some d \<Rightarrow>
        (case strptime_HM L new_time of
           None \<Rightarrow> Inl (Unhandled ''ValueError'')
         | Some t \<Rightarrow>
        if violates_uq_doctor_date_time (appointments db) (appointment\<lparr>date := d, time := t\<rparr>)
        then Inl (Unhandled ''IntegrityError'')
        else Inr (db\<lparr>appointments :=
                    map (move_to (appt_id appointment) d t) (appointments db)\<rparr>)))))))"

text \<open>The update of the status column of the row with primary key \<open>i\<close>.\<close>

definition set_status ::
  "int \<Rightarrow> AppointmentState \<Rightarrow> ('d, 't) MedicalAppointment list
     \<Rightarrow> ('d, 't) MedicalAppointment list" where
  "set_status i s tbl = map (\<lambda>a. if appt_id a = i then a\<lparr>status := s\<rparr> else a) tbl"

definition cancel_client_appointment ::
  "('d, 't) database \<Rightarrow> int \<Rightarrow> int \<Rightarrow> error + ('d, 't) database" where
  "cancel_client_appointment db current_user i =
     (case get_appointment (appointments db) i of
        None \<Rightarrow> Inl (NotFound ''404'')
      | Some appointment \<Rightarrow>
        if patient_id appointment \<noteq> current_user then
          Inl (AccessDenied ''Access denied. This appointment does not belong to you.'')
        else if status appointment \<noteq> BOOKED then
          Inl (InvalidState ''Only booked appointments can be cancelled.'')
        else
        (case validate_status_transition appointment CANCELLED of
           (False, reason) \<Rightarrow>
             Inl (InvalidState (''Cannot cancel appointment: '' @ format_optional reason))
         | (True, _) \<Rightarrow>
             Inr (db\<lparr>appointments :=
                      set_status (appt_id appointment) CANCELLED (appointments db)\<rparr>)))"

section \<open>Physician handlers (app/routes/doctor.py)\<close>

definition cancel_physician_appointment ::
  "('d, 't) database \<Rightarrow> int \<Rightarrow> int \<Rightarrow> error + ('d, 't) database" where
  "cancel_physician_appointment db current_user i =
     (case get_appointment (appointments db) i of
        None \<Rightarrow> Inl (NotFound ''404'')
      | Some appointment \<Rightarrow>
        if doctor_id appointment \<noteq> current_user then
          Inl (AccessDenied ''Access denied. This appointment is not assigned to you.'')
        else if status appointment \<noteq> BOOKED then
          Inl (InvalidState ''Only booked appointments can be cancelled.'')
        else
        (case validate_status_transition appointment CANCELLED of
           (False, reason) \<Rightarrow>
             Inl (InvalidState (''Cannot cancel appointment: '' @ format_optional reason))
         | (True, _) \<Rightarrow>
             Inr (db\<lparr>appointments :=
                      set_status (appt_id appointment) CANCELLED (appointments db)\<rparr>)))"

text \<open>
  \<^verbatim>\<open>treatment_data\<close> is the dictionary built by \<^verbatim>\<open>_extract_treatment_data\<close>, as an
  association list; \<open>dict_get\<close> is \<^verbatim>\<open>dict.get(key, default)\<close>.
\<close>

definition dict_get :: "(string \<times> string) list \<Rightarrow> string \<Rightarrow> string \<Rightarrow> string" where
  "dict_get d k dflt = (case map_of d k of None \<Rightarrow> dflt | Some v \<Rightarrow> v)"

definition fill_treatment ::
  "(string \<times> string) list \<Rightarrow> string \<Rightarrow> TreatmentRecord \<Rightarrow> TreatmentRecord" where
  "fill_treatment treatment_data dg r =
     r\<lparr>visit_type := dict_get treatment_data ''visit_type'' ''In-person'',
       tests_done := dict_get treatment_data ''tests_done'' [],
       diagnosis := dg,
       prescription := dict_get treatment_data ''prescription'' [],
       medicines := dict_get treatment_data ''medicines'' [],
       treatment_notes := dict_get treatment_data ''notes'' []\<rparr>"

text \<open>
  \<^verbatim>\<open>_create_or_update_treatment_record\<close>: the first treatment of the appointment is
  updated through its primary key, or a new one is added. \<^verbatim>\<open>treatment_data['diagnosis']\<close>
  raises \<^verbatim>\<open>KeyError\<close> on a dictionary without that key.
\<close>

definition create_or_update_treatment_record ::
  "TreatmentRecord list \<Rightarrow> int \<Rightarrow> (string \<times> string) list \<Rightarrow> error + TreatmentRecord list" where
  "create_or_update_treatment_record tbl aid treatment_data =
     (case map_of treatment_data ''diagnosis'' of
        None \<Rightarrow> Inl (Unhandled ''KeyError'')
      | Some dg \<Rightarrow>
          (case first (filter (\<lambda>r. appointment_id r = aid) tbl) of
             None \<Rightarrow>
               Inr (tbl @ [fill_treatment treatment_data dg
                      \<lparr>treatment_id = next_treatment_id tbl, appointment_id = aid,
                       visit_type = [], tests_done = [], diagnosis = [], prescription = [],
                       medicines = [], treatment_notes = []\<rparr>])
           | Some treatment \<Rightarrow>
               Inr (map (\<lambda>r. if treatment_id r = treatment_id treatment
                              then fill_treatment treatment_data dg r else r) tbl)))"

text \<open>
  \<^verbatim>\<open>mark_appointment_completed\<close>, POST branch: the status change and the treatment record
  are written by one commit.
\<close>

definition mark_appointment_completed ::
  "('d, 't) database \<Rightarrow> int \<Rightarrow> int \<Rightarrow> (string \<times> string) list \<Rightarrow> error + ('d, 't) database" where
  "mark_appointment_completed db current_user i treatment_data =
     (case get_appointment (appointments db) i of
        None \<Rightarrow> Inl (NotFound ''404'')
      | Some appointment \<Rightarrow>
        if doctor_id appointment \<noteq> current_user then
          Inl (AccessDenied ''Access denied. This appointment is not assigned to you.'')
        else if status appointment \<noteq> BOOKED then
          Inl (InvalidState ''This appointment is already completed or cancelled.'')
        else
        (case map_of treatment_data ''diagnosis'' of
           None \<Rightarrow> Inl (Unhandled ''KeyError'')
         | Some dg \<Rightarrow>
        if dg = [] then Inl (ValidationError ''Diagnosis is required.'')
        else
        (case validate_status_transition appointment COMPLETED of
           (False, reason) \<Rightarrow>
             Inl (InvalidState (''Cannot complete appointment: '' @ format_optional reason))
         | (True, _) \<Rightarrow>
        (case create_or_update_treatment_record (treatments db) (appt_id appointment)
                treatment_data of
           Inl e \<Rightarrow> Inl e
         | Inr treatments' \<Rightarrow>
             Inr (db\<lparr>appointments :=
                      set_status (appt_id appointment) COMPLETED (appointments db),
                    treatments := treatments'\<rparr>)))))"

section \<open>Administrator handlers (app/routes/admin.py)\<close>

text \<open>\<^verbatim>\<open>str.upper()\<close> on ASCII letters, and the lookup \<^verbatim>\<open>AppointmentStatus[name]\<close>.\<close>

definition char_upper :: "char \<Rightarrow> char" where
  "char_upper c =
     (let n = (of_char c :: nat) in if 97 \<le> n \<and> n \<le> 122 then char_of (n - 32) else c)"

definition upper :: "string \<Rightarrow> string" where
  "upper s = map char_upper s"

definition AppointmentStatus_by_name :: "string \<Rightarrow> AppointmentState option" where
  "AppointmentStatus_by_name name =
     (if name = ''BOOKED'' then Some BOOKED
      else if name = ''COMPLETED'' then Some COMPLETED
      else if name = ''CANCELLED'' then Some CANCELLED
      else None)"

text \<open>
  \<^verbatim>\<open>modify_appointment_status\<close> flashes a warning when the lifecycle checker refuses the
  transition and a success message otherwise, and assigns the new status in both cases.
  The result carries the flashed category and message with the committed database.
\<close>

definition modify_appointment_status ::
  "('d, 't) database \<Rightarrow> int \<Rightarrow> string \<Rightarrow> error + ((string \<times> string) \<times> ('d, 't) database)" where
  "modify_appointment_status db i new_status_string =
     (case get_appointment (appointments db) i of
        None \<Rightarrow> Inl (NotFound ''404'')
      | Some appointment \<Rightarrow>
        (let valid_statuses = [''Booked'', ''Completed'', ''Cancelled''] in
         if new_status_string = [] \<or> new_status_string \<notin> set valid_statuses then
           Inl (ValidationError ''Invalid status selected.'')
         else
         (case AppointmentStatus_by_name (upper new_status_string) of
            None \<Rightarrow> Inl (ValidationError ''Invalid status value.'')
          | Some new_status \<Rightarrow>
            (let previous_status = status appointment;
                 (can_transition, reason) = validate_status_transition appointment new_status;
                 flashed =
                   (if \<not> can_transition then
                      (''warning'', ''Status changed from '' @ state_value previous_status
                         @ '' to '' @ state_value new_status @ ''. Note: ''
                         @ format_optional reason)
                    else
                      (''success'', ''Appointment status updated from ''
                         @ state_value previous_status @ '' to '' @ state_value new_status
                         @ '' successfully!''))
             in Inr (flashed,
                     db\<lparr>appointments :=
                          set_status (appt_id appointment) new_status (appointments db)\<rparr>)))))"

text \<open>
  \<^verbatim>\<open>remove_appointment\<close>: the row is deleted through its primary key, and with it its
  treatment record (\<^verbatim>\<open>cascade='all, delete-orphan'\<close>).
\<close>

definition remove_appointment ::
  "('d, 't) database \<Rightarrow> int \<Rightarrow> error + ('d, 't) database" where
  "remove_appointment db i =
     (case get_appointment (appointments db) i of
        None \<Rightarrow> Inl (NotFound ''404'')
      | Some appointment \<Rightarrow>
        if status appointment = COMPLETED then
          Inl (InvalidState
                 ''Cannot delete completed appointments. They are permanent medical records.'')
        else
          Inr (db\<lparr>appointments :=
                   filter (\<lambda>a. appt_id a \<noteq> appt_id appointment) (appointments db),
                 treatments :=
                   filter (\<lambda>r. appointment_id r \<noteq> appt_id appointment) (treatments db)\<rparr>))"

section \<open>Sequences of requests\<close>

text \<open>
  The four booking operations as requests, each with the acting user: Create (by the form
  or directly by the query string), Reschedule, Cancel (by the patient or by the physician)
  and Complete. A request that commits nothing leaves the database as it was.
\<close>

datatype request =
    Create int string string string string
  | CreateDirect int string string string
  | Reschedule int int string string
  | CancelByPatient int int
  | CancelByPhysician int int
  | Complete int int "(string \<times> string) list"

fun handle :: "('d, 't) pylib \<Rightarrow> ('d, 't) database \<Rightarrow> request \<Rightarrow> error + ('d, 't) database" where
  "handle L db (Create u doc d t n) = create_appointment L db u doc d t n"
| "handle L db (CreateDirect u doc d t) = create_appointment_direct L db u doc d t"
| "handle L db (Reschedule u i d t) = reschedule_client_appointment L db u i d t"
| "handle L db (CancelByPatient u i) = cancel_client_appointment db u i"
| "handle L db (CancelByPhysician u i) = cancel_physician_appointment db u i"
| "handle L db (Complete u i td) = mark_appointment_completed db u i td"

definition serve :: "('d, 't) pylib \<Rightarrow> ('d, 't) database \<Rightarrow> request \<Rightarrow> ('d, 't) database" where
  "serve L db r = (case handle L db r of Inl _ \<Rightarrow> db | Inr db' \<Rightarrow> db')"

definition serve_all ::
  "('d, 't) pylib \<Rightarrow> ('d, 't) database \<Rightarrow> request list \<Rightarrow> ('d, 't) database" where
  "serve_all L db rs = foldl (serve L) db rs"

section \<open>Slots and the consistency of the appointment table\<close>

text \<open>
  The slot of an appointment, the slots held by the Booked rows of a table, and the
  consistency of a table: primary keys are distinct and no slot is held by two Booked rows.
\<close>

definition slot_of :: "('d, 't) MedicalAppointment \<Rightarrow> int \<times> 'd \<times> 't" where
  "slot_of a = (doctor_id a, date a, time a)"

definition booked_slots :: "('d, 't) MedicalAppointment list \<Rightarrow> (int \<times> 'd \<times> 't) list" where
  "booked_slots tbl = map slot_of (filter (\<lambda>a. status a = BOOKED) tbl)"

definition consistent :: "('d, 't) MedicalAppointment list \<Rightarrow> bool" where
  "consistent tbl \<longleftrightarrow> distinct (map appt_id tbl) \<and> distinct (booked_slots tbl)"

section \<open>A sample clinic\<close>

text \<open>
  Concrete data for evaluating the handlers: dates and times are kept as their strings,
  physician 1 offers 09:00 and 10:00 on 2025-06-10, and the table of appointments is empty.
\<close>

definition sample_lib :: "(string, string) pylib" where
  "sample_lib = \<lparr>py_int = (\<lambda>s. if s = ''1'' then Some 1 else None),
                  fromisoformat = Some, strptime_HM = Some\<rparr>"

definition sample_physician :: SystemUser where
  "sample_physician =
     \<lparr>role = DOCTOR,
      physician_profile =
        Some \<lparr>availability = Some [(''2025-06-10'', [''09:00'', ''10:00''])]\<rparr>\<rparr>"

definition sample_db :: "(string, string) database" where
  "sample_db = \<lparr>users = (\<lambda>i. if i = 1 then Some sample_physician else None),
                 appointments = [], treatments = []\<rparr>"

definition sample_appointment :: "(string, string) MedicalAppointment" where
  "sample_appointment =
     \<lparr>appt_id = 1, patient_id = 10, doctor_id = 1, date = ''2025-06-10'', time = ''09:00'',
      status = BOOKED, appt_notes = ''checkup''\<rparr>"

definition completed_db :: "(string, string) database" where
  "completed_db = sample_db\<lparr>appointments := [sample_appointment\<lparr>status := COMPLETED\<rparr>]\<rparr>"

definition booked_db :: "(string, string) database" where
  "booked_db = sample_db\<lparr>appointments := [sample_appointment]\<rparr>"

definition cancelled_db :: "(string, string) database" where
  "cancelled_db = sample_db\<lparr>appointments := [sample_appointment\<lparr>status := CANCELLED\<rparr>]\<rparr>"

definition sample_treatment_data :: "(string \<times> string) list" where
  "sample_treatment_data =
     [(''visit_type'', ''In-person''), (''tests_done'', ''''), (''diagnosis'', ''Flu''),
      (''prescription'', ''Rest''), (''medicines'', ''''), (''notes'', '''')]"

section \<open>Basic facts about the queries\<close>

lemma first_None_iff: "first xs = None \<longleftrightarrow> xs = []"
  by (simp add: first_def split: list.splits)

lemma first_Some_mem: "first xs = Some x \<Longrightarrow> x \<in> set xs"
  by (auto simp: first_def split: list.splits)

lemma get_appointment_SomeD:
  "get_appointment tbl i = Some a \<Longrightarrow> a \<in> set tbl \<and> appt_id a = i"
  using first_Some_mem [of "filter (\<lambda>a. appt_id a = i) tbl" a]
  by (simp add: get_appointment_def)

lemma slot_free_iff:
  "check_time_slot_availability tbl p d t ex \<longleftrightarrow>
     \<not> (\<exists>a \<in> set tbl. doctor_id a = p \<and> date a = d \<and> time a = t \<and> status a = BOOKED
                        \<and> (case ex of None \<Rightarrow> True | Some e \<Rightarrow> appt_id a \<noteq> e))"
  by (cases ex) (auto simp: check_time_slot_availability_def first_None_iff filter_empty_conv)

lemma next_appt_id_greater: "a \<in> set tbl \<Longrightarrow> appt_id a < next_appt_id tbl"
  unfolding next_appt_id_def by (induction tbl) auto

lemma consistent_iff:
  "consistent tbl \<longleftrightarrow>
     distinct (map appt_id tbl) \<and>
     (\<forall>a \<in> set tbl. \<forall>b \<in> set tbl.
        status a = BOOKED \<and> status b = BOOKED \<and> slot_of a = slot_of b \<longrightarrow> appt_id a = appt_id b)"
proof (cases "distinct (map appt_id tbl)")
  case False
  then show ?thesis by (simp add: consistent_def)
next
  case True
  then have inj: "inj_on appt_id (set tbl)" and d: "distinct tbl"
    by (simp_all add: distinct_map)
  have "distinct (booked_slots tbl) \<longleftrightarrow> inj_on slot_of {a \<in> set tbl. status a = BOOKED}"
    using d by (simp add: booked_slots_def distinct_map)
  also have "\<dots> \<longleftrightarrow> (\<forall>a \<in> set tbl. \<forall>b \<in> set tbl.
        status a = BOOKED \<and> status b = BOOKED \<and> slot_of a = slot_of b \<longrightarrow> appt_id a = appt_id b)"
    using inj by (auto simp: inj_on_def)
  finally show ?thesis using True by (simp add: consistent_def)
qed

lemma distinct_map_filter_le1:
  "distinct (map f xs) \<Longrightarrow> length (filter (\<lambda>x. f x = k) xs) \<le> 1"
  by (induction xs) (auto simp: filter_empty_conv image_iff)

lemma consistent_at_most_one:
  assumes "consistent tbl"
  shows "length (filter (\<lambda>a. doctor_id a = p \<and> date a = d \<and> time a = t \<and> status a = BOOKED) tbl) \<le> 1"
proof -
  have "distinct (map slot_of (filter (\<lambda>a. status a = BOOKED) tbl))"
    using assms by (simp add: consistent_def booked_slots_def)
  from distinct_map_filter_le1 [OF this, of "(p, d, t)"]
  have "length (filter (\<lambda>a. slot_of a = (p, d, t)) (filter (\<lambda>a. status a = BOOKED) tbl)) \<le> 1" .
  moreover have "filter (\<lambda>a. slot_of a = (p, d, t)) (filter (\<lambda>a. status a = BOOKED) tbl)
      = filter (\<lambda>a. doctor_id a = p \<and> date a = d \<and> time a = t \<and> status a = BOOKED) tbl"
    by (auto simp: slot_of_def intro: filter_cong)
  ultimately show ?thesis by simp
qed

lemma set_status_ids: "map appt_id (set_status i s tbl) = map appt_id tbl"
  by (induction tbl) (simp_all add: set_status_def)

lemma set_status_booked_mem:
  "a \<in> set (set_status i s tbl) \<Longrightarrow> status a = BOOKED \<Longrightarrow> s \<noteq> BOOKED \<Longrightarrow> a \<in> set tbl"
  by (induction tbl) (auto simp: set_status_def split: if_splits)

lemma consistent_set_status:
  assumes "consistent tbl" "s \<noteq> BOOKED"
  shows "consistent (set_status i s tbl)"
  unfolding consistent_iff set_status_ids
proof (intro conjI ballI impI)
  show "distinct (map appt_id tbl)" using assms(1) by (simp add: consistent_def)
next
  fix a b
  assume "a \<in> set (set_status i s tbl)" "b \<in> set (set_status i s tbl)"
    and h: "status a = BOOKED \<and> status b = BOOKED \<and> slot_of a = slot_of b"
  then have "a \<in> set tbl" "b \<in> set tbl"
    using set_status_booked_mem assms(2) by blast+
  then show "appt_id a = appt_id b"
    using assms(1) h unfolding consistent_iff by blast
qed

lemma consistent_insert:
  assumes "consistent tbl"
    and "check_time_slot_availability tbl (doctor_id a) (date a) (time a) None"
    and "appt_id a = next_appt_id tbl"
  shows "consistent (tbl @ [a])"
  unfolding consistent_iff
proof (intro conjI ballI impI)
  have fresh: "appt_id a \<notin> appt_id ` set tbl"
    using next_appt_id_greater [of _ tbl] assms(3) by fastforce
  then show "distinct (map appt_id (tbl @ [a]))"
    using assms(1) by (simp add: consistent_def)
next
  fix b c
  assume mem: "b \<in> set (tbl @ [a])" "c \<in> set (tbl @ [a])"
    and h: "status b = BOOKED \<and> status c = BOOKED \<and> slot_of b = slot_of c"
  have free: "\<And>e. e \<in> set tbl \<Longrightarrow> status e = BOOKED \<Longrightarrow> slot_of e \<noteq> slot_of a"
    using assms(2) by (auto simp: slot_free_iff slot_of_def)
  consider "b = a" "c = a" | "b = a" "c \<in> set tbl" | "b \<in> set tbl" "c = a"
    | "b \<in> set tbl" "c \<in> set tbl"
    using mem by auto
  then show "appt_id b = appt_id c"
  proof cases
    case 1 then show ?thesis by simp
  next
    case 2 then show ?thesis using free [of c] h by simp
  next
    case 3 then show ?thesis using free [of b] h by simp
  next
    case 4 then show ?thesis using assms(1) h unfolding consistent_iff by blast
  qed
qed

lemma move_to_ids: "map appt_id (map (move_to i d t) tbl) = map appt_id tbl"
  by (induction tbl) (simp_all add: move_to_def)

lemma consistent_move:
  assumes "consistent tbl"
    and "x \<in> set tbl"
    and "check_time_slot_availability tbl (doctor_id x) d t (Some (appt_id x))"
  shows "consistent (map (move_to (appt_id x) d t) tbl)"
  unfolding consistent_iff move_to_ids
proof (intro conjI ballI impI)
  show "distinct (map appt_id tbl)" using assms(1) by (simp add: consistent_def)
next
  fix b c
  assume mem: "b \<in> set (map (move_to (appt_id x) d t) tbl)"
              "c \<in> set (map (move_to (appt_id x) d t) tbl)"
    and h: "status b = BOOKED \<and> status c = BOOKED \<and> slot_of b = slot_of c"
  have old: "\<And>e f. e \<in> set tbl \<Longrightarrow> f \<in> set tbl \<Longrightarrow> status e = BOOKED \<Longrightarrow> status f = BOOKED
               \<Longrightarrow> slot_of e = slot_of f \<Longrightarrow> appt_id e = appt_id f"
    using assms(1) unfolding consistent_iff by blast
  have free: "\<And>e. e \<in> set tbl \<Longrightarrow> status e = BOOKED \<Longrightarrow> slot_of e = (doctor_id x, d, t)
                \<Longrightarrow> appt_id e = appt_id x"
    using assms(3) by (auto simp: slot_free_iff slot_of_def)
  have shape: "\<And>e. e \<in> set (map (move_to (appt_id x) d t) tbl) \<Longrightarrow> status e = BOOKED \<Longrightarrow>
      (e \<in> set tbl \<and> appt_id e \<noteq> appt_id x) \<or> (appt_id e = appt_id x \<and> slot_of e = (doctor_id x, d, t))"
  proof -
    fix e assume "e \<in> set (map (move_to (appt_id x) d t) tbl)" "status e = BOOKED"
    then obtain e0 where e0: "e0 \<in> set tbl" "e = move_to (appt_id x) d t e0" by auto
    show "(e \<in> set tbl \<and> appt_id e \<noteq> appt_id x) \<or> (appt_id e = appt_id x \<and> slot_of e = (doctor_id x, d, t))"
    proof (cases "appt_id e0 = appt_id x")
      case True
      then have "e0 = x"
        using assms(1,2) e0(1) by (auto simp: consistent_def distinct_map inj_on_def)
      then show ?thesis using e0(2) by (simp add: move_to_def slot_of_def)
    next
      case False
      then show ?thesis using e0 by (simp add: move_to_def)
    qed
  qed
  from shape [OF mem(1)] shape [OF mem(2)] h
  consider "b \<in> set tbl" "appt_id b \<noteq> appt_id x" "c \<in> set tbl" "appt_id c \<noteq> appt_id x"
    | "b \<in> set tbl" "appt_id b \<noteq> appt_id x" "appt_id c = appt_id x" "slot_of c = (doctor_id x, d, t)"
    | "c \<in> set tbl" "appt_id c \<noteq> appt_id x" "appt_id b = appt_id x" "slot_of b = (doctor_id x, d, t)"
    | "appt_id b = appt_id x" "appt_id c = appt_id x"
    by blast
  then show "appt_id b = appt_id c"
  proof cases
    case 1 then show ?thesis using old h by blast
  next
    case 2 then show ?thesis using free [of b] h by simp
  next
    case 3 then show ?thesis using free [of c] h by simp
  next
    case 4 then show ?thesis by simp
  qed
qed

lemma create_appointment_InrD:
  assumes "create_appointment L db u doc d t n = Inr db'"
  shows "\<exists>did doctor nd nt.
           doc \<noteq> [] \<and> d \<noteq> [] \<and> t \<noteq> [] \<and>
           py_int L doc = Some did \<and> users db did = Some doctor \<and> role doctor = DOCTOR \<and>
           fst (validate_doctor_availability doctor d t) \<and>
           fromisoformat L d = Some nd \<and> strptime_HM L t = Some nt \<and>
           check_time_slot_availability (appointments db) did nd nt None \<and>
           db' = db\<lparr>appointments := appointments db @
                  [\<lparr>appt_id = next_appt_id (appointments db), patient_id = u, doctor_id = did,
                    date = nd, time = nt, status = BOOKED, appt_notes = n\<rparr>]\<rparr>"
  using assms
  by (auto simp: create_appointment_def verify_slot_availability_def
        normalize_date_time_inputs_def is_slot_available_def Let_def
      split: if_splits option.splits sum.splits prod.splits bool.splits)

lemma reschedule_InrD:
  assumes "reschedule_client_appointment L db u i d t = Inr db'"
  shows "\<exists>x doctor nd nt.
           get_appointment (appointments db) i = Some x \<and> patient_id x = u \<and> status x = BOOKED \<and>
           d \<noteq> [] \<and> t \<noteq> [] \<and> users db (doctor_id x) = Some doctor \<and>
           fst (validate_doctor_availability doctor d t) \<and>
           fromisoformat L d = Some nd \<and> strptime_HM L t = Some nt \<and>
           check_time_slot_availability (appointments db) (doctor_id x) nd nt (Some (appt_id x)) \<and>
           db' = db\<lparr>appointments := map (move_to (appt_id x) nd nt) (appointments db)\<rparr>"
  using assms
  by (auto simp: reschedule_client_appointment_def verify_slot_availability_def
        normalize_date_time_inputs_def is_slot_available_def Let_def
      split: if_splits option.splits sum.splits prod.splits bool.splits)

lemma create_appointment_direct_InrD:
  assumes "create_appointment_direct L db u doc d t = Inr db'"
  shows "db' = db \<or>
         (\<exists>did nd nt.
            check_time_slot_availability (appointments db) did nd nt None \<and>
            db' = db\<lparr>appointments := appointments db @
                   [\<lparr>appt_id = next_appt_id (appointments db), patient_id = u, doctor_id = did,
                     date = nd, time = nt, status = BOOKED, appt_notes = []\<rparr>]\<rparr>)"
  using assms
  by (auto simp: create_appointment_direct_def verify_slot_availability_def
        normalize_date_time_inputs_def is_slot_available_def Let_def
      split: if_splits option.splits sum.splits prod.splits bool.splits)

lemma validate_from_booked:
  "status a = BOOKED \<Longrightarrow> t \<noteq> BOOKED \<Longrightarrow> validate_status_transition a t = (True, None)"
  by (cases t) (simp_all add: validate_status_transition_def)

lemma cancel_client_InrD:
  assumes "cancel_client_appointment db u i = Inr db'"
  shows "\<exists>x. get_appointment (appointments db) i = Some x \<and> patient_id x = u \<and> status x = BOOKED \<and>
           db' = db\<lparr>appointments := set_status i CANCELLED (appointments db)\<rparr>"
  using assms
  by (auto simp: cancel_client_appointment_def dest: get_appointment_SomeD
      split: if_splits option.splits prod.splits bool.splits)

lemma cancel_physician_InrD:
  assumes "cancel_physician_appointment db u i = Inr db'"
  shows "\<exists>x. get_appointment (appointments db) i = Some x \<and> doctor_id x = u \<and> status x = BOOKED \<and>
           db' = db\<lparr>appointments := set_status i CANCELLED (appointments db)\<rparr>"
  using assms
  by (auto simp: cancel_physician_appointment_def dest: get_appointment_SomeD
      split: if_splits option.splits prod.splits bool.splits)

lemma complete_InrD:
  assumes "mark_appointment_completed db u i td = Inr db'"
  shows "\<exists>x dg trs. get_appointment (appointments db) i = Some x \<and> doctor_id x = u \<and> status x = BOOKED \<and>
           map_of td ''diagnosis'' = Some dg \<and> dg \<noteq> [] \<and>
           create_or_update_treatment_record (treatments db) i td = Inr trs \<and>
           db' = db\<lparr>appointments := set_status i COMPLETED (appointments db), treatments := trs\<rparr>"
  using assms
  by (auto simp: mark_appointment_completed_def dest: get_appointment_SomeD
      split: if_splits option.splits prod.splits bool.splits sum.splits)

lemma handle_consistent:
  assumes "consistent (appointments db)" "handle L db r = Inr db'"
  shows "consistent (appointments db')"
proof (cases r)
  case (Create u doc d t n)
  with assms(2) have "create_appointment L db u doc d t n = Inr db'" by simp
  from create_appointment_InrD [OF this] obtain did nd nt where
    free: "check_time_slot_availability (appointments db) did nd nt None"
    and db': "db' = db\<lparr>appointments := appointments db @
                  [\<lparr>appt_id = next_appt_id (appointments db), patient_id = u, doctor_id = did,
                    date = nd, time = nt, status = BOOKED, appt_notes = n\<rparr>]\<rparr>"
    by blast
  show ?thesis
    unfolding db' using consistent_insert [OF assms(1), of
      "\<lparr>appt_id = next_appt_id (appointments db), patient_id = u, doctor_id = did,
        date = nd, time = nt, status = BOOKED, appt_notes = n\<rparr>"] free
    by simp
next
  case (CreateDirect u doc d t)
  with assms(2) have "create_appointment_direct L db u doc d t = Inr db'" by simp
  from create_appointment_direct_InrD [OF this] show ?thesis
  proof
    assume "db' = db"
    then show ?thesis using assms(1) by simp
  next
    assume "\<exists>did nd nt.
            check_time_slot_availability (appointments db) did nd nt None \<and>
            db' = db\<lparr>appointments := appointments db @
                   [\<lparr>appt_id = next_appt_id (appointments db), patient_id = u, doctor_id = did,
                     date = nd, time = nt, status = BOOKED, appt_notes = []\<rparr>]\<rparr>"
    then obtain did nd nt where
      free: "check_time_slot_availability (appointments db) did nd nt None"
      and db': "db' = db\<lparr>appointments := appointments db @
                  [\<lparr>appt_id = next_appt_id (appointments db), patient_id = u, doctor_id = did,
                    date = nd, time = nt, status = BOOKED, appt_notes = []\<rparr>]\<rparr>"
      by blast
    show ?thesis
      unfolding db' using consistent_insert [OF assms(1), of
        "\<lparr>appt_id = next_appt_id (appointments db), patient_id = u, doctor_id = did,
          date = nd, time = nt, status = BOOKED, appt_notes = []\<rparr>"] free
      by simp
  qed
next
  case (Reschedule u i d t)
  with assms(2) have "reschedule_client_appointment L db u i d t = Inr db'" by simp
  from reschedule_InrD [OF this] obtain x nd nt where
    x: "get_appointment (appointments db) i = Some x"
    and free: "check_time_slot_availability (appointments db) (doctor_id x) nd nt (Some (appt_id x))"
    and db': "db' = db\<lparr>appointments := map (move_to (appt_id x) nd nt) (appointments db)\<rparr>"
    by blast
  have "x \<in> set (appointments db)" using get_appointment_SomeD [OF x] by simp
  from consistent_move [OF assms(1) this free] show ?thesis unfolding db' by simp
next
  case (CancelByPatient u i)
  with assms(2) have "cancel_client_appointment db u i = Inr db'" by simp
  from cancel_client_InrD [OF this] show ?thesis
    using consistent_set_status [OF assms(1), of CANCELLED i] by auto
next
  case (CancelByPhysician u i)
  with assms(2) have "cancel_physician_appointment db u i = Inr db'" by simp
  from cancel_physician_InrD [OF this] show ?thesis
    using consistent_set_status [OF assms(1), of CANCELLED i] by auto
next
  case (Complete u i td)
  with assms(2) have "mark_appointment_completed db u i td = Inr db'" by simp
  from complete_InrD [OF this] show ?thesis
    using consistent_set_status [OF assms(1), of COMPLETED i] by auto
qed

lemma serve_consistent:
  "consistent (appointments db) \<Longrightarrow> consistent (appointments (serve L db r))"
  using handle_consistent [of db L r]
  by (cases "handle L db r") (simp_all add: serve_def)

lemma serve_all_consistent:
  "consistent (appointments db) \<Longrightarrow> consistent (appointments (serve_all L db rs))"
  unfolding serve_all_def
  by (induction rs arbitrary: db) (simp_all add: serve_consistent)

section \<open>Evaluating the handlers on the sample clinic\<close>

lemmas sample_defs = sample_lib_def sample_physician_def sample_db_def

lemmas handler_defs = create_appointment_def verify_slot_availability_def
  normalize_date_time_inputs_def is_slot_available_def check_time_slot_availability_def
  validate_doctor_availability_def violates_uq_doctor_date_time_def next_appt_id_def
  first_def get_appointment_def serve_all_def serve_def message_text_def

lemma sample_first_booking:
  "create_appointment sample_lib sample_db 10 ''1'' ''2025-06-10'' ''09:00'' ''checkup'' =
     Inr (sample_db\<lparr>appointments :=
            [\<lparr>appt_id = 1, patient_id = 10, doctor_id = 1, date = ''2025-06-10'',
              time = ''09:00'', status = BOOKED, appt_notes = ''checkup''\<rparr>]\<rparr>)"
  by (simp add: sample_defs handler_defs)

section \<open>Exclusivity of booked slots\<close>

text \<open>
  Claim C1. Start from a table whose primary keys are distinct and in which no slot is held
  by two Booked rows. After any sequence of Create (by the form or by the query string),
  Reschedule, Cancel (by the patient or by the physician) and Complete requests, for every
  provider, date and time at most one appointment with that provider, date and time has
  status Booked.
\<close>

theorem booked_slot_exclusive:
  assumes "distinct (map appt_id (appointments db))"
    and "distinct (booked_slots (appointments db))"
  shows "length (filter (\<lambda>a. doctor_id a = p \<and> date a = d \<and> time a = t \<and> status a = BOOKED)
                   (appointments (serve_all L db rs))) \<le> 1"
proof -
  have "consistent (appointments db)" using assms by (simp add: consistent_def)
  then have "consistent (appointments (serve_all L db rs))" by (rule serve_all_consistent)
  then show ?thesis by (rule consistent_at_most_one)
qed

theorem booked_slot_exclusive_witness:
  "distinct (map appt_id (appointments sample_db))
   \<and> distinct (booked_slots (appointments sample_db))
   \<and> length (filter (\<lambda>a. doctor_id a = 1 \<and> date a = ''2025-06-10'' \<and> time a = ''09:00''
                          \<and> status a = BOOKED)
                (appointments (serve_all sample_lib sample_db
                   [Create 10 ''1'' ''2025-06-10'' ''09:00'' ''checkup'',
                    Create 20 ''1'' ''2025-06-10'' ''09:00'' ''second'']))) \<le> 1"
proof -
  have h1: "distinct (map appt_id (appointments sample_db))"
    by (simp add: sample_db_def)
  have h2: "distinct (booked_slots (appointments sample_db))"
    by (simp add: sample_db_def booked_slots_def)
  from booked_slot_exclusive [OF h1 h2] h1 h2 show ?thesis by blast
qed

lemma validate_rejected_reason:
  assumes "\<not> fst (validate_status_transition a t)"
  shows "t = BOOKED \<and> status a \<noteq> BOOKED \<and>
         validate_status_transition a t =
           (False, Some (''Cannot change '' @ state_value (status a) @ '' appointment back to Booked''))"
  using assms
  by (cases "status a"; cases t) (simp_all add: validate_status_transition_def)

section \<open>The lifecycle checker\<close>

text \<open>
  Claim C2. \<^verbatim>\<open>validate_status_transition\<close> allows a transition exactly when it is not
  Completed \<open>\<rightarrow>\<close> Booked or Cancelled \<open>\<rightarrow>\<close> Booked: every self-transition is allowed, Booked
  \<open>\<rightarrow>\<close> Completed and Booked \<open>\<rightarrow>\<close> Cancelled are allowed, Completed \<open>\<rightarrow>\<close> Cancelled and
  Cancelled \<open>\<rightarrow>\<close> Completed are allowed, and the two transitions back to Booked are
  refused with a reason that names the current status.
\<close>

theorem lifecycle_table:
  "(fst (validate_status_transition a target) \<longleftrightarrow>
      \<not> ((status a = COMPLETED \<or> status a = CANCELLED) \<and> target = BOOKED))
   \<and> validate_status_transition (a\<lparr>status := s\<rparr>) s = (True, None)
   \<and> validate_status_transition (a\<lparr>status := BOOKED\<rparr>) COMPLETED = (True, None)
   \<and> validate_status_transition (a\<lparr>status := BOOKED\<rparr>) CANCELLED = (True, None)
   \<and> validate_status_transition (a\<lparr>status := COMPLETED\<rparr>) CANCELLED = (True, None)
   \<and> validate_status_transition (a\<lparr>status := CANCELLED\<rparr>) COMPLETED = (True, None)
   \<and> validate_status_transition (a\<lparr>status := COMPLETED\<rparr>) BOOKED
       = (False, Some ''Cannot change Completed appointment back to Booked'')
   \<and> validate_status_transition (a\<lparr>status := CANCELLED\<rparr>) BOOKED
       = (False, Some ''Cannot change Cancelled appointment back to Booked'')"
  by (cases "status a"; cases target) (simp_all add: validate_status_transition_def)

theorem lifecycle_table_witness:
  "validate_status_transition (sample_appointment\<lparr>status := COMPLETED\<rparr>) BOOKED
       = (False, Some ''Cannot change Completed appointment back to Booked'')
   \<and> validate_status_transition (sample_appointment\<lparr>status := BOOKED\<rparr>) CANCELLED = (True, None)"
  using lifecycle_table [of sample_appointment BOOKED BOOKED] by blast

section \<open>The conflict checker\<close>

text \<open>
  Claim C4. \<^verbatim>\<open>check_time_slot_availability\<close> answers true exactly when the table has no
  appointment with the given physician, date and time whose status is Booked and whose
  primary key differs from the excluded one; without an exclusion the condition on the
  key is vacuous.
\<close>

theorem slot_free_exactly:
  "check_time_slot_availability tbl p d t ex \<longleftrightarrow>
     \<not> (\<exists>a \<in> set tbl. doctor_id a = p \<and> date a = d \<and> time a = t \<and> status a = BOOKED
                        \<and> (\<forall>e. ex = Some e \<longrightarrow> appt_id a \<noteq> e))"
  unfolding slot_free_iff by (cases ex) simp_all

theorem slot_free_exactly_witness:
  "check_time_slot_availability [sample_appointment] 1 ''2025-06-10'' ''09:00'' (Some 1)
   \<and> \<not> check_time_slot_availability [sample_appointment] 1 ''2025-06-10'' ''09:00'' None
   \<and> check_time_slot_availability [sample_appointment\<lparr>status := CANCELLED\<rparr>] 1 ''2025-06-10'' ''09:00'' None"
  using slot_free_exactly [of "[sample_appointment]" 1 "''2025-06-10''" "''09:00''" "Some 1"]
    slot_free_exactly [of "[sample_appointment]" 1 "''2025-06-10''" "''09:00''" None]
    slot_free_exactly [of "[sample_appointment\<lparr>status := CANCELLED\<rparr>]" 1 "''2025-06-10''" "''09:00''" None]
  by (simp add: sample_appointment_def)

section \<open>The bypass flag of change-status\<close>

text \<open>
  Claim C10. With \<^verbatim>\<open>bypass_validation=True\<close>, \<^verbatim>\<open>change_status\<close> sets the status to the
  target and reports success for every appointment and every target, also where the
  lifecycle checker refuses the transition. With \<^verbatim>\<open>bypass_validation=False\<close> and a
  transition the checker refuses, it reports failure with the checker's reason and the
  appointment is as before.
\<close>

theorem change_status_bypass:
  "change_status a t True =
     (a\<lparr>status := t\<rparr>,
      (True, ''Status changed from '' @ state_value (status a) @ '' to '' @ state_value t))
   \<and> (\<not> fst (validate_status_transition a t) \<longrightarrow>
        (\<exists>m. snd (validate_status_transition a t) = Some m \<and> m \<noteq> []
              \<and> change_status a t False = (a, (False, m))))"
proof (intro conjI impI)
  show "change_status a t True =
     (a\<lparr>status := t\<rparr>,
      (True, ''Status changed from '' @ state_value (status a) @ '' to '' @ state_value t))"
    by (simp add: change_status_def split: prod.splits)
next
  assume "\<not> fst (validate_status_transition a t)"
  from validate_rejected_reason [OF this]
  have v: "validate_status_transition a t =
           (False, Some (''Cannot change '' @ state_value (status a) @ '' appointment back to Booked''))"
    by blast
  show "\<exists>m. snd (validate_status_transition a t) = Some m \<and> m \<noteq> []
              \<and> change_status a t False = (a, (False, m))"
    unfolding change_status_def v by simp
qed

theorem change_status_bypass_witness:
  "status (fst (change_status (sample_appointment\<lparr>status := COMPLETED\<rparr>) BOOKED True)) = BOOKED
   \<and> fst (snd (change_status (sample_appointment\<lparr>status := COMPLETED\<rparr>) BOOKED True))
   \<and> \<not> fst (validate_status_transition (sample_appointment\<lparr>status := COMPLETED\<rparr>) BOOKED)
   \<and> change_status (sample_appointment\<lparr>status := COMPLETED\<rparr>) BOOKED False
       = (sample_appointment\<lparr>status := COMPLETED\<rparr>,
          (False, ''Cannot change Completed appointment back to Booked''))"
proof -
  have r: "\<not> fst (validate_status_transition (sample_appointment\<lparr>status := COMPLETED\<rparr>) BOOKED)"
    by (simp add: validate_status_transition_def)
  have v: "snd (validate_status_transition (sample_appointment\<lparr>status := COMPLETED\<rparr>) BOOKED)
      = Some ''Cannot change Completed appointment back to Booked''"
    by (simp add: validate_status_transition_def)
  from change_status_bypass [of "sample_appointment\<lparr>status := COMPLETED\<rparr>" BOOKED] r v
  show ?thesis by auto
qed

lemma get_appointment_map:
  assumes "\<And>a. appt_id (f a) = appt_id a"
  shows "get_appointment (map f tbl) i = map_option f (get_appointment tbl i)"
  using assms by (induction tbl) (simp_all add: get_appointment_def first_def)

lemma get_appointment_append:
  "get_appointment tbl i = Some a \<Longrightarrow> get_appointment (tbl @ xs) i = Some a"
  by (cases "filter (\<lambda>a. appt_id a = i) tbl") (simp_all add: get_appointment_def first_def)

lemma get_appointment_removed:
  "get_appointment (filter (\<lambda>b. appt_id b \<noteq> i) tbl) i = None"
  by (induction tbl) (simp_all add: get_appointment_def first_def)

lemma get_appointment_set_status:
  "get_appointment (set_status j s tbl) i =
     map_option (\<lambda>a. if appt_id a = j then a\<lparr>status := s\<rparr> else a) (get_appointment tbl i)"
  unfolding set_status_def by (rule get_appointment_map) simp

lemma get_appointment_move_to:
  "get_appointment (map (move_to j d t) tbl) i = map_option (move_to j d t) (get_appointment tbl i)"
  by (rule get_appointment_map) (simp add: move_to_def)

lemma upper_Booked: "upper ''Booked'' = ''BOOKED''"
  by code_simp

lemma upper_Completed: "upper ''Completed'' = ''COMPLETED''"
  by code_simp

lemma upper_Cancelled: "upper ''Cancelled'' = ''CANCELLED''"
  by code_simp

lemma handle_keeps_closed:
  assumes "get_appointment (appointments db) i = Some a" "status a \<noteq> BOOKED"
    and "handle L db r = Inr db'"
  shows "\<exists>a'. get_appointment (appointments db') i = Some a' \<and> status a' = status a"
proof (cases r)
  case (Create u doc d t n)
  with assms(3) have "create_appointment L db u doc d t n = Inr db'" by simp
  from create_appointment_InrD [OF this] show ?thesis
    using get_appointment_append [OF assms(1)] by auto
next
  case (CreateDirect u doc d t)
  with assms(3) have "create_appointment_direct L db u doc d t = Inr db'" by simp
  from create_appointment_direct_InrD [OF this] show ?thesis
    using get_appointment_append [OF assms(1)] assms(1) by auto
next
  case (Reschedule u j d t)
  with assms(3) have "reschedule_client_appointment L db u j d t = Inr db'" by simp
  from reschedule_InrD [OF this] show ?thesis
    using assms(1) by (auto simp: get_appointment_move_to move_to_def)
next
  case (CancelByPatient u j)
  with assms(3) have "cancel_client_appointment db u j = Inr db'" by simp
  from cancel_client_InrD [OF this] show ?thesis
    using assms(1,2) get_appointment_SomeD [OF assms(1)]
    by (auto simp: get_appointment_set_status)
next
  case (CancelByPhysician u j)
  with assms(3) have "cancel_physician_appointment db u j = Inr db'" by simp
  from cancel_physician_InrD [OF this] show ?thesis
    using assms(1,2) get_appointment_SomeD [OF assms(1)]
    by (auto simp: get_appointment_set_status)
next
  case (Complete u j td)
  with assms(3) have "mark_appointment_completed db u j td = Inr db'" by simp
  from complete_InrD [OF this] show ?thesis
    using assms(1,2) get_appointment_SomeD [OF assms(1)]
    by (auto simp: get_appointment_set_status)
qed

lemma serve_keeps_closed:
  assumes "get_appointment (appointments db) i = Some a" "status a \<noteq> BOOKED"
  shows "\<exists>a'. get_appointment (appointments (serve L db r)) i = Some a' \<and> status a' = status a"
  using handle_keeps_closed [OF assms, of L r] assms(1)
  by (cases "handle L db r") (simp_all add: serve_def)

lemma serve_all_keeps_closed:
  assumes "get_appointment (appointments db) i = Some a" "status a \<noteq> BOOKED"
  shows "\<exists>a'. get_appointment (appointments (serve_all L db rs)) i = Some a' \<and> status a' = status a"
  using assms unfolding serve_all_def
proof (induction rs arbitrary: db a)
  case Nil
  then show ?case by simp
next
  case (Cons r rs)
  from serve_keeps_closed [OF Cons.prems, of L r] obtain a1 where
    a1: "get_appointment (appointments (serve L db r)) i = Some a1" "status a1 = status a"
    by blast
  with Cons.prems(2) have "status a1 \<noteq> BOOKED" by simp
  from Cons.IH [OF a1(1) this] a1(2) show ?case by simp
qed

lemma modify_to_Booked:
  assumes "get_appointment (appointments db) i = Some a"
  shows "modify_appointment_status db i ''Booked'' =
           Inr ((if status a = BOOKED then
                   (''success'', ''Appointment status updated from Booked to Booked successfully!'')
                 else
                   (''warning'', ''Status changed from '' @ state_value (status a)
                      @ '' to Booked. Note: Cannot change '' @ state_value (status a)
                      @ '' appointment back to Booked'')),
                db\<lparr>appointments := set_status i BOOKED (appointments db)\<rparr>)"
  using assms get_appointment_SomeD [OF assms]
  by (cases "status a")
     (simp_all add: modify_appointment_status_def upper_Booked AppointmentStatus_by_name_def
        validate_status_transition_def format_optional_def)

section \<open>Transitions back to Booked\<close>

text \<open>
  Claim C8, as the code has it. No sequence of Create, Reschedule, Cancel and Complete
  requests moves an appointment out of Completed or Cancelled: its status stays what it
  was, so it never becomes Booked again. The administrative status update is different: a
  request for Booked on any existing appointment is committed, the status becomes Booked,
  and for a Completed or Cancelled appointment the refusal of the lifecycle checker is only
  flashed as a warning.
\<close>

theorem closed_stays_closed_except_admin:
  "(get_appointment (appointments db) i = Some a \<and> status a \<noteq> BOOKED \<longrightarrow>
      (\<exists>a'. get_appointment (appointments (serve_all L db rs)) i = Some a'
            \<and> status a' = status a))
   \<and> (get_appointment (appointments db) i = Some a \<longrightarrow>
      (\<exists>msg db'. modify_appointment_status db i ''Booked'' =
                    Inr ((if status a = BOOKED then ''success'' else ''warning'', msg), db')
                \<and> map_option status (get_appointment (appointments db') i) = Some BOOKED))"
proof (intro conjI impI)
  assume "get_appointment (appointments db) i = Some a \<and> status a \<noteq> BOOKED"
  then show "\<exists>a'. get_appointment (appointments (serve_all L db rs)) i = Some a'
            \<and> status a' = status a"
    using serve_all_keeps_closed by blast
next
  assume a: "get_appointment (appointments db) i = Some a"
  have "appt_id a = i" using get_appointment_SomeD [OF a] by simp
  then have "map_option status (get_appointment (set_status i BOOKED (appointments db)) i)
      = Some BOOKED"
    by (simp add: get_appointment_set_status a)
  then show "\<exists>msg db'. modify_appointment_status db i ''Booked'' =
                    Inr ((if status a = BOOKED then ''success'' else ''warning'', msg), db')
                \<and> map_option status (get_appointment (appointments db') i) = Some BOOKED"
    unfolding modify_to_Booked [OF a] by (cases "status a = BOOKED") simp_all
qed

lemma completed_db_lookup:
  "get_appointment (appointments completed_db) 1 = Some (sample_appointment\<lparr>status := COMPLETED\<rparr>)"
  by (simp add: completed_db_def sample_db_def sample_appointment_def get_appointment_def first_def)

theorem closed_stays_closed_except_admin_witness:
  "get_appointment (appointments completed_db) 1 = Some (sample_appointment\<lparr>status := COMPLETED\<rparr>)
   \<and> status (sample_appointment\<lparr>status := COMPLETED\<rparr>) \<noteq> BOOKED
   \<and> (\<exists>a'. get_appointment (appointments (serve_all sample_lib completed_db
               [Reschedule 10 1 ''2025-06-10'' ''10:00'', CancelByPatient 10 1])) 1 = Some a'
            \<and> status a' = COMPLETED)
   \<and> (\<exists>msg db'. modify_appointment_status completed_db 1 ''Booked'' = Inr ((''warning'', msg), db')
            \<and> map_option status (get_appointment (appointments db') 1) = Some BOOKED)"
  using closed_stays_closed_except_admin [of completed_db 1
      "sample_appointment\<lparr>status := COMPLETED\<rparr>" sample_lib
      "[Reschedule 10 1 ''2025-06-10'' ''10:00'', CancelByPatient 10 1]"]
    completed_db_lookup
  by simp

theorem admin_reopens_completed_counterexample:
  "modify_appointment_status completed_db 1 ''Booked'' =
     Inr ((''warning'', ''Status changed from Completed to Booked. Note: Cannot change Completed appointment back to Booked''),
          completed_db\<lparr>appointments := [sample_appointment\<lparr>status := BOOKED\<rparr>]\<rparr>)
   \<and> status (sample_appointment\<lparr>status := COMPLETED\<rparr>) = COMPLETED
   \<and> get_appointment (appointments completed_db) 1 = Some (sample_appointment\<lparr>status := COMPLETED\<rparr>)"
  using modify_to_Booked [OF completed_db_lookup] completed_db_lookup
  by (simp add: set_status_def completed_db_def sample_appointment_def sample_db_def)

lemma booked_db_lookup:
  "get_appointment (appointments booked_db) 1 = Some sample_appointment"
  by (simp add: booked_db_def sample_db_def sample_appointment_def get_appointment_def first_def)

section \<open>The administrative hard delete\<close>

text \<open>
  Claim C9. For an existing appointment, \<^verbatim>\<open>remove_appointment\<close> succeeds exactly when
  the status is not Completed. On a Completed appointment it fails with the message about
  permanent medical records and commits nothing; a Booked or Cancelled appointment is
  removed from the table (with its treatment record), and afterwards no row has its key.
\<close>

theorem remove_appointment_guard:
  assumes "get_appointment (appointments db) i = Some a"
  shows "((\<exists>db'. remove_appointment db i = Inr db') \<longleftrightarrow> status a \<noteq> COMPLETED)
     \<and> (status a = COMPLETED \<longrightarrow>
          remove_appointment db i = Inl (InvalidState
            ''Cannot delete completed appointments. They are permanent medical records.''))
     \<and> (status a \<noteq> COMPLETED \<longrightarrow>
          remove_appointment db i =
            Inr (db\<lparr>appointments := filter (\<lambda>b. appt_id b \<noteq> i) (appointments db),
                   treatments := filter (\<lambda>r. appointment_id r \<noteq> i) (treatments db)\<rparr>)
          \<and> get_appointment (filter (\<lambda>b. appt_id b \<noteq> i) (appointments db)) i = None)"
  using assms get_appointment_SomeD [OF assms]
  by (simp add: remove_appointment_def get_appointment_removed)

theorem remove_appointment_guard_witness:
  "get_appointment (appointments completed_db) 1 = Some (sample_appointment\<lparr>status := COMPLETED\<rparr>)
   \<and> remove_appointment completed_db 1 = Inl (InvalidState
        ''Cannot delete completed appointments. They are permanent medical records.'')
   \<and> get_appointment (appointments booked_db) 1 = Some sample_appointment
   \<and> remove_appointment booked_db 1 = Inr sample_db"
  using remove_appointment_guard [OF completed_db_lookup]
    remove_appointment_guard [OF booked_db_lookup] completed_db_lookup booked_db_lookup
  by (simp add: sample_appointment_def booked_db_def sample_db_def)

section \<open>Booking a slot again after a cancellation\<close>

text \<open>
  Claim C3, evaluated. Patient 10 holds physician 1's slot 2025-06-10 09:00 and cancels.
  The conflict checker then reports the slot free, but the Create of patient 20 for the
  same slot does not succeed: the cancelled row still has the same doctor, date and time,
  the uniqueness constraint \<^verbatim>\<open>uq_doctor_date_time_booked_slot\<close> refuses the insert, and the
  handler rolls back and flashes a storage failure.
\<close>

theorem rebook_after_cancel_refused:
  "create_appointment sample_lib sample_db 10 ''1'' ''2025-06-10'' ''09:00'' ''checkup''
     = Inr booked_db
   \<and> cancel_client_appointment booked_db 10 1 = Inr cancelled_db
   \<and> check_time_slot_availability (appointments cancelled_db) 1 ''2025-06-10'' ''09:00'' None
   \<and> create_appointment sample_lib cancelled_db 20 ''1'' ''2025-06-10'' ''09:00'' ''second''
     = Inl (StorageFailure ''An error occurred while booking the appointment. Please try again.'')"
proof (intro conjI)
  show "create_appointment sample_lib sample_db 10 ''1'' ''2025-06-10'' ''09:00'' ''checkup''
     = Inr booked_db"
    by (simp add: sample_first_booking booked_db_def sample_appointment_def)
  show "cancel_client_appointment booked_db 10 1 = Inr cancelled_db"
    by (simp add: cancel_client_appointment_def booked_db_lookup)
       (simp add: cancelled_db_def booked_db_def sample_appointment_def
          validate_status_transition_def set_status_def sample_db_def)
  show "check_time_slot_availability (appointments cancelled_db) 1 ''2025-06-10'' ''09:00'' None"
    by (simp add: cancelled_db_def sample_db_def sample_appointment_def
        check_time_slot_availability_def first_def)
  show "create_appointment sample_lib cancelled_db 20 ''1'' ''2025-06-10'' ''09:00'' ''second''
     = Inl (StorageFailure ''An error occurred while booking the appointment. Please try again.'')"
    by (simp add: cancelled_db_def sample_appointment_def sample_defs handler_defs)
qed

lemma others_after_move:
  "filter (\<lambda>b. appt_id b \<noteq> i) (map (move_to i d t) tbl) = filter (\<lambda>b. appt_id b \<noteq> i) tbl"
  by (induction tbl) (simp_all add: move_to_def)

lemma old_slot_free_after_move:
  assumes "consistent tbl" "x \<in> set tbl" "status x = BOOKED"
    and "(d, t) \<noteq> (date x, time x)"
  shows "check_time_slot_availability (map (move_to (appt_id x) d t) tbl)
           (doctor_id x) (date x) (time x) None"
  unfolding slot_free_iff
proof (rule notI, erule bexE)
  fix b'
  assume mem: "b' \<in> set (map (move_to (appt_id x) d t) tbl)"
    and h: "doctor_id b' = doctor_id x \<and> date b' = date x \<and> time b' = time x \<and> status b' = BOOKED
             \<and> (case None of None \<Rightarrow> True | Some e \<Rightarrow> appt_id b' \<noteq> e)"
  from mem obtain b where b: "b \<in> set tbl" "b' = move_to (appt_id x) d t b" by auto
  have inj: "\<And>e. e \<in> set tbl \<Longrightarrow> appt_id e = appt_id x \<Longrightarrow> e = x"
    using assms(1,2) by (auto simp: consistent_def distinct_map inj_on_def)
  show False
  proof (cases "appt_id b = appt_id x")
    case True
    then have "b = x" using inj b(1) by blast
    then have "date b' = d \<and> time b' = t" using b(2) by (simp add: move_to_def)
    with h assms(4) show False by simp
  next
    case False
    then have "b' = b" using b(2) by (simp add: move_to_def)
    with h b(1) have "status b = BOOKED" "slot_of b = slot_of x" by (simp_all add: slot_of_def)
    with assms(1,2,3) b(1) have "appt_id b = appt_id x"
      unfolding consistent_iff by blast
    with False show False by simp
  qed
qed

section \<open>Reschedule\<close>

text \<open>
  Claim C5, as the code has it. Let X be an appointment of a table with distinct keys in
  which no slot is held by two Booked rows. A successful Reschedule of X changes only X's
  date and time: X keeps its key, patient, physician, status and notes, every other row,
  the users and the treatments are as before, and when the new date and time differ from
  the old ones, X's prior slot is free immediately after. If X's status is not Booked,
  Reschedule fails and commits nothing.
\<close>

theorem reschedule_changes_only_date_time:
  assumes "get_appointment (appointments db) i = Some x"
    and "distinct (map appt_id (appointments db))"
    and "distinct (booked_slots (appointments db))"
  shows "(\<forall>db'. reschedule_client_appointment L db u i d t = Inr db' \<longrightarrow>
            (\<exists>nd nt x'. fromisoformat L d = Some nd \<and> strptime_HM L t = Some nt
               \<and> get_appointment (appointments db') i = Some x'
               \<and> date x' = nd \<and> time x' = nt
               \<and> appt_id x' = appt_id x \<and> patient_id x' = patient_id x
               \<and> doctor_id x' = doctor_id x \<and> status x' = status x
               \<and> appt_notes x' = appt_notes x
               \<and> filter (\<lambda>b. appt_id b \<noteq> i) (appointments db')
                   = filter (\<lambda>b. appt_id b \<noteq> i) (appointments db)
               \<and> users db' = users db \<and> treatments db' = treatments db
               \<and> ((nd, nt) \<noteq> (date x, time x) \<longrightarrow>
                    check_time_slot_availability (appointments db') (doctor_id x)
                      (date x) (time x) None)))
       \<and> (status x \<noteq> BOOKED \<longrightarrow>
            reschedule_client_appointment L db u i d t =
              Inl (if patient_id x \<noteq> u
                   then AccessDenied ''Access denied. This appointment does not belong to you.''
                   else InvalidState ''Only booked appointments can be rescheduled.''))"
proof (intro conjI allI impI)
  fix db'
  assume ok: "reschedule_client_appointment L db u i d t = Inr db'"
  from reschedule_InrD [OF ok] assms(1) obtain nd nt where
    p: "fromisoformat L d = Some nd" "strptime_HM L t = Some nt"
    and bk: "status x = BOOKED"
    and db': "db' = db\<lparr>appointments := map (move_to (appt_id x) nd nt) (appointments db)\<rparr>"
    by auto
  have xi: "x \<in> set (appointments db)" "appt_id x = i"
    using get_appointment_SomeD [OF assms(1)] by simp_all
  have c: "consistent (appointments db)" using assms(2,3) by (simp add: consistent_def)
  have g: "get_appointment (appointments db') i = Some (x\<lparr>date := nd, time := nt\<rparr>)"
    by (simp add: db' get_appointment_move_to assms(1) move_to_def xi(2))
  have o: "filter (\<lambda>b. appt_id b \<noteq> i) (appointments db')
             = filter (\<lambda>b. appt_id b \<noteq> i) (appointments db)"
    using others_after_move [of i nd nt "appointments db"] by (simp add: db' xi(2))
  have f: "(nd, nt) \<noteq> (date x, time x) \<longrightarrow>
             check_time_slot_availability (appointments db') (doctor_id x) (date x) (time x) None"
    using old_slot_free_after_move [OF c xi(1) bk, of nd nt] by (simp add: db')
  show "\<exists>nd nt x'. fromisoformat L d = Some nd \<and> strptime_HM L t = Some nt
               \<and> get_appointment (appointments db') i = Some x'
               \<and> date x' = nd \<and> time x' = nt
               \<and> appt_id x' = appt_id x \<and> patient_id x' = patient_id x
               \<and> doctor_id x' = doctor_id x \<and> status x' = status x
               \<and> appt_notes x' = appt_notes x
               \<and> filter (\<lambda>b. appt_id b \<noteq> i) (appointments db')
                   = filter (\<lambda>b. appt_id b \<noteq> i) (appointments db)
               \<and> users db' = users db \<and> treatments db' = treatments db
               \<and> ((nd, nt) \<noteq> (date x, time x) \<longrightarrow>
                    check_time_slot_availability (appointments db') (doctor_id x)
                      (date x) (time x) None)"
    apply (rule exI [of _ nd], rule exI [of _ nt], rule exI [of _ "x\<lparr>date := nd, time := nt\<rparr>"])
    using p g o f by (simp add: db')
next
  assume "status x \<noteq> BOOKED"
  then show "reschedule_client_appointment L db u i d t =
              Inl (if patient_id x \<noteq> u
                   then AccessDenied ''Access denied. This appointment does not belong to you.''
                   else InvalidState ''Only booked appointments can be rescheduled.'')"
    by (simp add: reschedule_client_appointment_def assms(1))
qed

lemma sample_reschedule:
  "reschedule_client_appointment sample_lib booked_db 10 1 ''2025-06-10'' ''10:00''
     = Inr (booked_db\<lparr>appointments := [sample_appointment\<lparr>time := ''10:00''\<rparr>]\<rparr>)"
  by (simp add: reschedule_client_appointment_def booked_db_lookup)
     (simp add: booked_db_def sample_appointment_def sample_defs handler_defs move_to_def)

theorem reschedule_changes_only_date_time_witness:
  "get_appointment (appointments booked_db) 1 = Some sample_appointment
   \<and> distinct (map appt_id (appointments booked_db))
   \<and> distinct (booked_slots (appointments booked_db))
   \<and> reschedule_client_appointment sample_lib booked_db 10 1 ''2025-06-10'' ''10:00''
       = Inr (booked_db\<lparr>appointments := [sample_appointment\<lparr>time := ''10:00''\<rparr>]\<rparr>)
   \<and> check_time_slot_availability [sample_appointment\<lparr>time := ''10:00''\<rparr>] 1
         ''2025-06-10'' ''09:00'' None
   \<and> get_appointment (appointments completed_db) 1
       = Some (sample_appointment\<lparr>status := COMPLETED\<rparr>)
   \<and> reschedule_client_appointment sample_lib completed_db 10 1 ''2025-06-10'' ''10:00''
       = Inl (InvalidState ''Only booked appointments can be rescheduled.'')"
proof -
  have h2: "distinct (map appt_id (appointments booked_db))"
    by (simp add: booked_db_def sample_db_def)
  have h3: "distinct (booked_slots (appointments booked_db))"
    by (simp add: booked_db_def sample_db_def booked_slots_def)
  have k2: "distinct (map appt_id (appointments completed_db))"
    by (simp add: completed_db_def sample_db_def)
  have k3: "distinct (booked_slots (appointments completed_db))"
    by (simp add: completed_db_def sample_db_def booked_slots_def)
  from reschedule_changes_only_date_time [OF booked_db_lookup h2 h3,
      of sample_lib 10 "''2025-06-10''" "''10:00''"] sample_reschedule
  have free: "check_time_slot_availability [sample_appointment\<lparr>time := ''10:00''\<rparr>] 1
         ''2025-06-10'' ''09:00'' None"
    by (auto simp: sample_lib_def sample_appointment_def)
  from reschedule_changes_only_date_time [OF completed_db_lookup k2 k3,
      of sample_lib 10 "''2025-06-10''" "''10:00''"]
  have closed: "reschedule_client_appointment sample_lib completed_db 10 1 ''2025-06-10'' ''10:00''
       = Inl (InvalidState ''Only booked appointments can be rescheduled.'')"
    by (simp add: sample_appointment_def)
  show ?thesis
    using booked_db_lookup h2 h3 sample_reschedule free completed_db_lookup closed by simp
qed

text \<open>
  Rescheduling a Booked appointment to the date and time it already has succeeds, and its
  slot is then still held by the appointment itself.
\<close>

theorem reschedule_same_slot_counterexample:
  "get_appointment (appointments booked_db) 1 = Some sample_appointment
   \<and> status sample_appointment = BOOKED
   \<and> reschedule_client_appointment sample_lib booked_db 10 1 ''2025-06-10'' ''09:00''
       = Inr booked_db
   \<and> \<not> check_time_slot_availability (appointments booked_db) (doctor_id sample_appointment)
         (date sample_appointment) (time sample_appointment) None"
proof (intro conjI)
  show "get_appointment (appointments booked_db) 1 = Some sample_appointment"
    by (rule booked_db_lookup)
  show "status sample_appointment = BOOKED" by (simp add: sample_appointment_def)
  show "reschedule_client_appointment sample_lib booked_db 10 1 ''2025-06-10'' ''09:00''
       = Inr booked_db"
    by (simp add: reschedule_client_appointment_def booked_db_lookup)
       (simp add: booked_db_def sample_appointment_def sample_defs handler_defs move_to_def)
  show "\<not> check_time_slot_availability (appointments booked_db) (doctor_id sample_appointment)
         (date sample_appointment) (time sample_appointment) None"
    by (simp add: booked_db_def sample_db_def sample_appointment_def
        check_time_slot_availability_def first_def)
qed

lemma fill_treatment_fields:
  "appointment_id (fill_treatment td dg r) = appointment_id r"
  "treatment_id (fill_treatment td dg r) = treatment_id r"
  "diagnosis (fill_treatment td dg r) = dg"
  "visit_type (fill_treatment td dg r) = dict_get td ''visit_type'' ''In-person''"
  "tests_done (fill_treatment td dg r) = dict_get td ''tests_done'' []"
  "prescription (fill_treatment td dg r) = dict_get td ''prescription'' []"
  "medicines (fill_treatment td dg r) = dict_get td ''medicines'' []"
  "treatment_notes (fill_treatment td dg r) = dict_get td ''notes'' []"
  by (simp_all add: fill_treatment_def)

lemma filter_map_same_key:
  assumes "\<And>r. appointment_id (g r) = appointment_id r"
  shows "filter (\<lambda>r. appointment_id r = i) (map g tbl)
           = map g (filter (\<lambda>r. appointment_id r = i) tbl)"
  using assms by (induction tbl) simp_all

lemma distinct_key_filter_first:
  assumes "distinct (map appointment_id tbl)"
    and "first (filter (\<lambda>r. appointment_id r = i) tbl) = Some tr"
  shows "filter (\<lambda>r. appointment_id r = i) tbl = [tr]"
proof -
  have "length (filter (\<lambda>r. appointment_id r = i) tbl) \<le> 1"
    using assms(1) by (rule distinct_map_filter_le1)
  with assms(2) show ?thesis
    by (cases "filter (\<lambda>r. appointment_id r = i) tbl") (simp_all add: first_def)
qed

lemma treatment_record_written:
  assumes "distinct (map appointment_id tbl)" "map_of td ''diagnosis'' = Some dg"
  shows "\<exists>tbl' r. create_or_update_treatment_record tbl i td = Inr tbl'
           \<and> filter (\<lambda>r. appointment_id r = i) tbl' = [r]
           \<and> r = fill_treatment td dg r \<and> appointment_id r = i
           \<and> distinct (map appointment_id tbl')"
proof (cases "first (filter (\<lambda>r. appointment_id r = i) tbl)")
  case None
  then have e: "filter (\<lambda>r. appointment_id r = i) tbl = []" by (simp add: first_None_iff)
  then have fresh: "i \<notin> appointment_id ` set tbl" by (auto simp: filter_empty_conv)
  show ?thesis
    using None e fresh assms
    by (simp add: create_or_update_treatment_record_def fill_treatment_def)
next
  case (Some tr)
  let ?g = "\<lambda>r. if treatment_id r = treatment_id tr then fill_treatment td dg r else r"
  have key: "\<And>r. appointment_id (?g r) = appointment_id r"
    by (simp add: fill_treatment_def)
  have one: "filter (\<lambda>r. appointment_id r = i) tbl = [tr]"
    using distinct_key_filter_first [OF assms(1) Some] .
  then have "tr \<in> set (filter (\<lambda>r. appointment_id r = i) tbl)" by simp
  then have tri: "appointment_id tr = i" by simp
  have ids: "map appointment_id (map ?g tbl) = map appointment_id tbl"
    by (induction tbl) (simp_all add: fill_treatment_def)
  have d: "distinct (map appointment_id (map ?g tbl))"
    using assms(1) by (simp only: ids)
  have f: "filter (\<lambda>r. appointment_id r = i) (map ?g tbl) = [fill_treatment td dg tr]"
    using filter_map_same_key [of ?g i tbl, OF key] one by simp
  have res: "create_or_update_treatment_record tbl i td = Inr (map ?g tbl)"
    using Some assms(2) by (simp add: create_or_update_treatment_record_def)
  have idem: "fill_treatment td dg tr = fill_treatment td dg (fill_treatment td dg tr)"
    by (simp add: fill_treatment_def)
  show ?thesis
    apply (rule exI [of _ "map ?g tbl"], rule exI [of _ "fill_treatment td dg tr"])
    using res f idem tri d by (simp add: fill_treatment_fields)
qed

section \<open>Complete\<close>

text \<open>
  Claim C6. For a Booked appointment and its physician: Complete with an empty diagnosis
  fails with the validation error \<^verbatim>\<open>Diagnosis is required.\<close> and commits nothing. With a
  non-empty diagnosis (the lifecycle checker always allows Booked \<open>\<rightarrow>\<close> Completed) it
  commits, in one step, the status Completed and the treatment record of the appointment:
  afterwards exactly one treatment record is attached to the appointment, and it carries
  the given diagnosis and visit metadata (a table of treatments with one record per
  appointment, as its uniqueness constraint on \<^verbatim>\<open>appointment_id\<close> guarantees, stays so).
\<close>

theorem complete_requires_diagnosis:
  assumes "get_appointment (appointments db) i = Some a"
    and "doctor_id a = u" and "status a = BOOKED"
    and "distinct (map appointment_id (treatments db))"
  shows "(map_of td ''diagnosis'' = Some [] \<longrightarrow>
            mark_appointment_completed db u i td = Inl (ValidationError ''Diagnosis is required.''))
       \<and> (\<forall>dg. map_of td ''diagnosis'' = Some dg \<and> dg \<noteq> [] \<longrightarrow>
            fst (validate_status_transition a COMPLETED)
            \<and> (\<exists>db' r. mark_appointment_completed db u i td = Inr db'
                 \<and> appointments db' = set_status i COMPLETED (appointments db)
                 \<and> map_option status (get_appointment (appointments db') i) = Some COMPLETED
                 \<and> filter (\<lambda>r. appointment_id r = i) (treatments db') = [r]
                 \<and> diagnosis r = dg
                 \<and> visit_type r = dict_get td ''visit_type'' ''In-person''
                 \<and> tests_done r = dict_get td ''tests_done'' []
                 \<and> prescription r = dict_get td ''prescription'' []
                 \<and> medicines r = dict_get td ''medicines'' []
                 \<and> treatment_notes r = dict_get td ''notes'' []
                 \<and> distinct (map appointment_id (treatments db'))
                 \<and> users db' = users db))"
proof (intro conjI allI impI)
  assume "map_of td ''diagnosis'' = Some []"
  then show "mark_appointment_completed db u i td = Inl (ValidationError ''Diagnosis is required.'')"
    using assms(1,2,3) by (simp add: mark_appointment_completed_def)
next
  fix dg assume "map_of td ''diagnosis'' = Some dg \<and> dg \<noteq> []"
  show "fst (validate_status_transition a COMPLETED)"
    using validate_from_booked [OF assms(3), of COMPLETED] by simp
next
  fix dg assume dg: "map_of td ''diagnosis'' = Some dg \<and> dg \<noteq> []"
  have ai: "appt_id a = i" using get_appointment_SomeD [OF assms(1)] by simp
  from treatment_record_written [OF assms(4), of td dg i] dg obtain tbl' r where
    w: "create_or_update_treatment_record (treatments db) i td = Inr tbl'"
       "filter (\<lambda>r. appointment_id r = i) tbl' = [r]"
       "r = fill_treatment td dg r" "distinct (map appointment_id tbl')"
    by blast
  have res: "mark_appointment_completed db u i td =
      Inr (db\<lparr>appointments := set_status i COMPLETED (appointments db), treatments := tbl'\<rparr>)"
    using assms(1,2,3) dg w(1) ai validate_from_booked [OF assms(3), of COMPLETED]
    by (simp add: mark_appointment_completed_def)
  have st: "map_option status (get_appointment (set_status i COMPLETED (appointments db)) i)
      = Some COMPLETED"
    by (simp add: get_appointment_set_status assms(1) ai)
  have fields: "diagnosis r = dg"
    "visit_type r = dict_get td ''visit_type'' ''In-person''"
    "tests_done r = dict_get td ''tests_done'' []"
    "prescription r = dict_get td ''prescription'' []"
    "medicines r = dict_get td ''medicines'' []"
    "treatment_notes r = dict_get td ''notes'' []"
    using fill_treatment_fields [of td dg r] w(3) by simp_all
  show "\<exists>db' r. mark_appointment_completed db u i td = Inr db'
                 \<and> appointments db' = set_status i COMPLETED (appointments db)
                 \<and> map_option status (get_appointment (appointments db') i) = Some COMPLETED
                 \<and> filter (\<lambda>r. appointment_id r = i) (treatments db') = [r]
                 \<and> diagnosis r = dg
                 \<and> visit_type r = dict_get td ''visit_type'' ''In-person''
                 \<and> tests_done r = dict_get td ''tests_done'' []
                 \<and> prescription r = dict_get td ''prescription'' []
                 \<and> medicines r = dict_get td ''medicines'' []
                 \<and> treatment_notes r = dict_get td ''notes'' []
                 \<and> distinct (map appointment_id (treatments db'))
                 \<and> users db' = users db"
    apply (rule exI [of _ "db\<lparr>appointments := set_status i COMPLETED (appointments db),
                              treatments := tbl'\<rparr>"], rule exI [of _ r])
    using res st w(2,4) fields by simp
qed

theorem complete_requires_diagnosis_witness:
  "get_appointment (appointments booked_db) 1 = Some sample_appointment
   \<and> doctor_id sample_appointment = 1 \<and> status sample_appointment = BOOKED
   \<and> distinct (map appointment_id (treatments booked_db))
   \<and> mark_appointment_completed booked_db 1 1 [(''diagnosis'', [])]
       = Inl (ValidationError ''Diagnosis is required.'')
   \<and> (\<exists>db' r. mark_appointment_completed booked_db 1 1 sample_treatment_data = Inr db'
         \<and> map_option status (get_appointment (appointments db') 1) = Some COMPLETED
         \<and> filter (\<lambda>r. appointment_id r = 1) (treatments db') = [r]
         \<and> diagnosis r = ''Flu'' \<and> visit_type r = ''In-person'' \<and> prescription r = ''Rest'')"
proof -
  have h2: "doctor_id sample_appointment = 1" and h3: "status sample_appointment = BOOKED"
    by (simp_all add: sample_appointment_def)
  have h4: "distinct (map appointment_id (treatments booked_db))"
    by (simp add: booked_db_def sample_db_def)
  have e: "mark_appointment_completed booked_db 1 1 [(''diagnosis'', [])]
       = Inl (ValidationError ''Diagnosis is required.'')"
    using complete_requires_diagnosis [OF booked_db_lookup h2 h3 h4, of "[(''diagnosis'', [])]"]
    by simp
  have dg: "map_of sample_treatment_data ''diagnosis'' = Some ''Flu''"
    by (simp add: sample_treatment_data_def)
  have ok: "\<exists>db' r. mark_appointment_completed booked_db 1 1 sample_treatment_data = Inr db'
         \<and> map_option status (get_appointment (appointments db') 1) = Some COMPLETED
         \<and> filter (\<lambda>r. appointment_id r = 1) (treatments db') = [r]
         \<and> diagnosis r = ''Flu'' \<and> visit_type r = ''In-person'' \<and> prescription r = ''Rest''"
    using complete_requires_diagnosis [OF booked_db_lookup h2 h3 h4, of sample_treatment_data] dg
    by (auto simp: dict_get_def sample_treatment_data_def)
  show ?thesis using booked_db_lookup h2 h3 h4 e ok by blast
qed

lemma validate_doctor_availability_refusal:
  assumes "\<not> fst (validate_doctor_availability doctor d t)"
  shows "validate_doctor_availability doctor d t = (False, Some ''Doctor is not available on this date.'')
       \<or> validate_doctor_availability doctor d t =
            (False, Some ''Selected time slot is not available. Please choose another time.'')"
  using assms
  by (auto simp: validate_doctor_availability_def split: option.splits if_splits)

section \<open>Create\<close>

text \<open>
  Claim C7. For a Create request with all fields present and naming an existing physician:
  the declared availability is validated first, and when it fails the request fails as
  slot-unavailable with the message of the availability check (the physician does not
  offer the date, or not the time), whatever the table holds; when it passes and the
  conflict checker (without exclusion) finds the slot taken, the request fails as
  slot-unavailable with the different message that the slot is already booked. A failed
  request commits nothing. A successful request has passed both checks and appends exactly
  one row: status Booked, the given patient, physician, date, time and notes.
\<close>

theorem create_checks_then_inserts:
  assumes "doc \<noteq> []" "d \<noteq> []" "t \<noteq> []"
    and "py_int L doc = Some did" and "users db did = Some doctor" and "role doctor = DOCTOR"
  shows "(\<not> fst (validate_doctor_availability doctor d t) \<longrightarrow>
            (\<exists>msg. snd (validate_doctor_availability doctor d t) = Some msg
               \<and> create_appointment L db u doc d t n = Inl (SlotUnavailable msg)
               \<and> (msg = ''Doctor is not available on this date.''
                    \<or> msg = ''Selected time slot is not available. Please choose another time.'')
               \<and> msg \<noteq> ''This time slot is already booked. Please choose another time.''))
       \<and> (\<forall>nd nt. fst (validate_doctor_availability doctor d t)
              \<and> fromisoformat L d = Some nd \<and> strptime_HM L t = Some nt
              \<and> \<not> check_time_slot_availability (appointments db) did nd nt None \<longrightarrow>
            create_appointment L db u doc d t n =
              Inl (SlotUnavailable ''This time slot is already booked. Please choose another time.''))
       \<and> (\<forall>db'. create_appointment L db u doc d t n = Inr db' \<longrightarrow>
            (\<exists>nd nt. fst (validate_doctor_availability doctor d t)
               \<and> fromisoformat L d = Some nd \<and> strptime_HM L t = Some nt
               \<and> check_time_slot_availability (appointments db) did nd nt None
               \<and> db' = db\<lparr>appointments := appointments db @
                     [\<lparr>appt_id = next_appt_id (appointments db), patient_id = u,
                       doctor_id = did, date = nd, time = nt, status = BOOKED,
                       appt_notes = n\<rparr>]\<rparr>))"
proof (intro conjI allI impI)
  assume r: "\<not> fst (validate_doctor_availability doctor d t)"
  from validate_doctor_availability_refusal [OF r]
  show "\<exists>msg. snd (validate_doctor_availability doctor d t) = Some msg
               \<and> create_appointment L db u doc d t n = Inl (SlotUnavailable msg)
               \<and> (msg = ''Doctor is not available on this date.''
                    \<or> msg = ''Selected time slot is not available. Please choose another time.'')
               \<and> msg \<noteq> ''This time slot is already booked. Please choose another time.''"
    using assms by (auto simp: create_appointment_def message_text_def)
next
  fix nd nt
  assume h: "fst (validate_doctor_availability doctor d t)
              \<and> fromisoformat L d = Some nd \<and> strptime_HM L t = Some nt
              \<and> \<not> check_time_slot_availability (appointments db) did nd nt None"
  then obtain m where v: "validate_doctor_availability doctor d t = (True, m)"
    by (cases "validate_doctor_availability doctor d t") simp
  show "create_appointment L db u doc d t n =
              Inl (SlotUnavailable ''This time slot is already booked. Please choose another time.'')"
    using assms h v
    by (simp add: create_appointment_def verify_slot_availability_def
          normalize_date_time_inputs_def is_slot_available_def Let_def)
next
  fix db'
  assume ok: "create_appointment L db u doc d t n = Inr db'"
  from create_appointment_InrD [OF ok] assms(4,5)
  show "\<exists>nd nt. fst (validate_doctor_availability doctor d t)
               \<and> fromisoformat L d = Some nd \<and> strptime_HM L t = Some nt
               \<and> check_time_slot_availability (appointments db) did nd nt None
               \<and> db' = db\<lparr>appointments := appointments db @
                     [\<lparr>appt_id = next_appt_id (appointments db), patient_id = u,
                       doctor_id = did, date = nd, time = nt, status = BOOKED,
                       appt_notes = n\<rparr>]\<rparr>"
    by auto
qed

lemma sample_physician_lookup:
  "py_int sample_lib ''1'' = Some 1" "users sample_db 1 = Some sample_physician"
  "users booked_db 1 = Some sample_physician" "role sample_physician = DOCTOR"
  by (simp_all add: sample_defs booked_db_def)

lemma sample_availability:
  "validate_doctor_availability sample_physician ''2025-06-10'' ''09:00'' = (True, None)"
  "validate_doctor_availability sample_physician ''2025-06-10'' ''11:00'' =
     (False, Some ''Selected time slot is not available. Please choose another time.'')"
  by (simp_all add: sample_physician_def validate_doctor_availability_def)

lemma sample_parse:
  "fromisoformat sample_lib s = Some s" "strptime_HM sample_lib s = Some s"
  by (simp_all add: sample_lib_def)

lemma booked_slot_taken:
  "\<not> check_time_slot_availability (appointments booked_db) 1 ''2025-06-10'' ''09:00'' None"
  by (simp add: booked_db_def sample_db_def sample_appointment_def
        check_time_slot_availability_def first_def)

lemma sample_second_booking:
  "create_appointment sample_lib sample_db 10 ''1'' ''2025-06-10'' ''09:00'' ''checkup''
       = Inr booked_db"
  by (simp add: sample_first_booking booked_db_def sample_appointment_def)

theorem create_checks_then_inserts_witness:
  "''1'' \<noteq> [] \<and> ''2025-06-10'' \<noteq> [] \<and> ''09:00'' \<noteq> [] \<and> ''11:00'' \<noteq> []
   \<and> py_int sample_lib ''1'' = Some 1 \<and> users sample_db 1 = Some sample_physician
   \<and> users booked_db 1 = Some sample_physician \<and> role sample_physician = DOCTOR
   \<and> create_appointment sample_lib sample_db 20 ''1'' ''2025-06-10'' ''11:00'' ''second''
       = Inl (SlotUnavailable ''Selected time slot is not available. Please choose another time.'')
   \<and> create_appointment sample_lib booked_db 20 ''1'' ''2025-06-10'' ''09:00'' ''second''
       = Inl (SlotUnavailable ''This time slot is already booked. Please choose another time.'')
   \<and> create_appointment sample_lib sample_db 10 ''1'' ''2025-06-10'' ''09:00'' ''checkup''
       = Inr booked_db
   \<and> check_time_slot_availability (appointments sample_db) 1 ''2025-06-10'' ''09:00'' None"
proof -
  have ne: "''1'' \<noteq> []" "''2025-06-10'' \<noteq> []" "''09:00'' \<noteq> []" "''11:00'' \<noteq> []"
    by simp_all
  note p = sample_physician_lookup
  note T1 = create_checks_then_inserts [OF ne(1,2,4) p(1,2,4), of 20 "''second''"]
  note T2 = create_checks_then_inserts [OF ne(1,2,3) p(1,3,4), of 20 "''second''"]
  note T3 = create_checks_then_inserts [OF ne(1,2,3) p(1,2,4), of 10 "''checkup''"]
  have r: "\<not> fst (validate_doctor_availability sample_physician ''2025-06-10'' ''11:00'')"
    by (simp only: sample_availability fst_conv not_False_eq_True)
  from T1 r obtain msg where
    m: "snd (validate_doctor_availability sample_physician ''2025-06-10'' ''11:00'') = Some msg"
       "create_appointment sample_lib sample_db 20 ''1'' ''2025-06-10'' ''11:00'' ''second''
          = Inl (SlotUnavailable msg)"
    by blast
  from m(1) have "msg = ''Selected time slot is not available. Please choose another time.''"
    by (simp only: sample_availability snd_conv option.inject)
  with m(2) have a:
    "create_appointment sample_lib sample_db 20 ''1'' ''2025-06-10'' ''11:00'' ''second''
       = Inl (SlotUnavailable ''Selected time slot is not available. Please choose another time.'')"
    by (simp only:)
  have v: "fst (validate_doctor_availability sample_physician ''2025-06-10'' ''09:00'')"
    by (simp only: sample_availability fst_conv)
  from T2 v sample_parse booked_slot_taken have b:
    "create_appointment sample_lib booked_db 20 ''1'' ''2025-06-10'' ''09:00'' ''second''
       = Inl (SlotUnavailable ''This time slot is already booked. Please choose another time.'')"
    by blast
  note c = sample_second_booking
  from T3 c obtain nd nt where
    q: "fromisoformat sample_lib ''2025-06-10'' = Some nd"
       "strptime_HM sample_lib ''09:00'' = Some nt"
       "check_time_slot_availability (appointments sample_db) 1 nd nt None"
    by blast
  from q(1,2) have "nd = ''2025-06-10''" "nt = ''09:00''"
    by (simp_all only: sample_parse option.inject)
  with q(3) have f:
    "check_time_slot_availability (appointments sample_db) 1 ''2025-06-10'' ''09:00'' None"
    by (simp only:)
  show ?thesis
    by (intro conjI ne p a b c f)
qed

end
